theory Spec2Isabelle
  imports Complex_Main "HOL-Library.Sublist"
begin

text \<open>
  A shallow embedding of the JSON-to-Dart class generators: \<^verbatim>\<open>DartGenerator\<close> (the Standard
  Class Renderer), \<^verbatim>\<open>ModelNewGenerator\<close> (the Nested/Persistence Class Renderer) and the
  part of \<^verbatim>\<open>JsonToDartConverter.convert\<close> that calls them. A thrown error is the left
  summand of a result, an instance is a record passed to its methods, and the converter's two
  instances are threaded through \<open>convert\<close>. Texts are lists of characters; the generators
  copy and concatenate them and test characters against ASCII classes only.
\<close>

section \<open>JavaScript values and built-ins used by the generators\<close>

text \<open>
  A JavaScript number produced by \<^verbatim>\<open>JSON.parse\<close> is a finite double (a rational) or, on
  overflow of the literal, an infinity. The generators observe a number only through
  \<^verbatim>\<open>Number.isInteger\<close>.
\<close>

datatype number = Finite rat | PosInfinity | NegInfinity

fun Number_isInteger :: "number \<Rightarrow> bool" where
  "Number_isInteger (Finite q) = (of_int \<lfloor>q\<rfloor> = q)"
| "Number_isInteger PosInfinity = False"
| "Number_isInteger NegInfinity = False"

text \<open>
  A parsed JSON document. An object is the list of its own properties in the order in
  which \<^verbatim>\<open>Object.entries\<close> and \<^verbatim>\<open>Object.keys\<close> enumerate them.
\<close>

datatype json =
    JNull
  | JBool bool
  | JNumber number
  | JString string
  | JArray "json list"
  | JObject "(string \<times> json) list"

text \<open>\<^verbatim>\<open>new Error(message)\<close>; JavaScript errors carry their kind in the message only.\<close>

datatype js_error = Error (message: string)

text \<open>
  The built-ins of the host that are not code of the repository are parameters:
  \<^verbatim>\<open>JSON.parse(text)\<close>, \<^verbatim>\<open>JSON.stringify(value, null, 2)\<close>, \<^verbatim>\<open>String.prototype.toLowerCase\<close>
  and the \<^verbatim>\<open>TypeError\<close> that \<^verbatim>\<open>Object.entries\<close> and \<^verbatim>\<open>Object.keys\<close> throw on \<^verbatim>\<open>null\<close>.
\<close>

record platform =
  JSON_parse :: "string \<Rightarrow> js_error + json"
  JSON_stringify :: "json \<Rightarrow> string"
  String_toLowerCase :: "string \<Rightarrow> string"
  nullToObject :: js_error

definition digitChars :: string where
  "digitChars = ''0123456789''"

definition lowerChars :: string where
  "lowerChars = ''abcdefghijklmnopqrstuvwxyz''"

definition upperChars :: string where
  "upperChars = ''ABCDEFGHIJKLMNOPQRSTUVWXYZ''"

text \<open>Decimal rendering of an array index, as property keys of arrays and strings.\<close>

fun decimal :: "nat \<Rightarrow> string" where
  "decimal n = (if n < 10 then [digitChars ! n] else decimal (n div 10) @ [digitChars ! (n mod 10)])"

declare decimal.simps [simp del]

definition indexKeys :: "'a list \<Rightarrow> string list" where
  "indexKeys xs = map decimal [0 ..< length xs]"

text \<open>
  \<^verbatim>\<open>Object.entries(v)\<close> for a parsed JSON value: the properties of an object, the indexed
  elements of an array or of a string, nothing for a number or a boolean, and a
  \<^verbatim>\<open>TypeError\<close> for \<^verbatim>\<open>null\<close>. \<^verbatim>\<open>Object.keys(v).forEach(key => ... v[key] ...)\<close> visits
  the same pairs in the same order.
\<close>

fun Object_entries :: "platform \<Rightarrow> json \<Rightarrow> js_error + (string \<times> json) list" where
  "Object_entries P (JObject kvs) = Inr kvs"
| "Object_entries P (JArray xs) = Inr (zip (indexKeys xs) xs)"
| "Object_entries P (JString s) = Inr (zip (indexKeys s) (map (\<lambda>c. JString [c]) s))"
| "Object_entries P (JNumber n) = Inr []"
| "Object_entries P (JBool b) = Inr []"
| "Object_entries P JNull = Inl (nullToObject P)"

text \<open>\<^verbatim>\<open>Array.prototype.join\<close> on an array of strings.\<close>

fun join :: "string \<Rightarrow> string list \<Rightarrow> string" where
  "join sep [] = []"
| "join sep [x] = x"
| "join sep (x # y # ys) = x @ sep @ join sep (y # ys)"

text \<open>\<^verbatim>\<open>text.split('\n')\<close>.\<close>

fun splitLines :: "string \<Rightarrow> string list" where
  "splitLines [] = [[]]"
| "splitLines (c # cs) =
     (if c = CHR ''\<newline>'' then [] # splitLines cs
      else (case splitLines cs of [] \<Rightarrow> [[c]] | l # ls \<Rightarrow> (c # l) # ls))"

text \<open>
  \<^verbatim>\<open>String.prototype.trim\<close>; the texts it is applied to here hold ASCII white space only.
\<close>

definition isWhiteSpace :: "char \<Rightarrow> bool" where
  "isWhiteSpace c = (c \<in> set [CHR '' '', CHR ''\<newline>'', CHR 0x09, CHR 0x0B, CHR 0x0C, CHR 0x0D])"

definition trim :: "string \<Rightarrow> string" where
  "trim s = rev (dropWhile isWhiteSpace (rev (dropWhile isWhiteSpace s)))"

text \<open>
  \<^verbatim>\<open>toUpperCase\<close> of one character; it is applied to identifier characters only, so the
  ASCII table is all of it.
\<close>

definition toUpperCase :: "char \<Rightarrow> char" where
  "toUpperCase c = (case map_of (zip lowerChars upperChars) c of Some u \<Rightarrow> u | None \<Rightarrow> c)"

section \<open>Identifier legality and derivation (both generator classes carry the same text)\<close>

definition isLower :: "char \<Rightarrow> bool" where
  "isLower c = (c \<in> set lowerChars)"

definition isUpper :: "char \<Rightarrow> bool" where
  "isUpper c = (c \<in> set upperChars)"

definition isDigit :: "char \<Rightarrow> bool" where
  "isDigit c = (c \<in> set digitChars)"

text \<open>The character classes \<^verbatim>\<open>[a-zA-Z_]\<close> and \<^verbatim>\<open>[a-zA-Z0-9_]\<close>.\<close>

definition isIdentStart :: "char \<Rightarrow> bool" where
  "isIdentStart c = (isLower c \<or> isUpper c \<or> c = CHR ''_'')"

definition isIdentChar :: "char \<Rightarrow> bool" where
  "isIdentChar c = (isLower c \<or> isUpper c \<or> isDigit c \<or> c = CHR ''_'')"

text \<open>\<^verbatim>\<open>/^[a-zA-Z_][a-zA-Z0-9_]*$/.test(name)\<close>\<close>

fun matchesIdentifier :: "string \<Rightarrow> bool" where
  "matchesIdentifier [] = False"
| "matchesIdentifier (c # cs) = (isIdentStart c \<and> list_all isIdentChar cs)"

text \<open>The local array \<^verbatim>\<open>keywords\<close> of \<^verbatim>\<open>isDartKeyword\<close>.\<close>

definition dartKeywords :: "string list" where
  "dartKeywords = [
     ''abstract'', ''as'', ''assert'', ''async'', ''await'', ''break'', ''case'', ''catch'', ''class'',
     ''const'', ''continue'', ''default'', ''deferred'', ''do'', ''dynamic'', ''else'', ''enum'',
     ''export'', ''extends'', ''external'', ''factory'', ''false'', ''final'', ''finally'', ''for'',
     ''function'', ''get'', ''hide'', ''if'', ''implements'', ''import'', ''in'', ''interface'', ''is'',
     ''library'', ''mixin'', ''new'', ''null'', ''on'', ''operator'', ''part'', ''rethrow'', ''return'',
     ''set'', ''show'', ''static'', ''super'', ''switch'', ''sync'', ''this'', ''throw'', ''true'', ''try'',
     ''typedef'', ''var'', ''void'', ''while'', ''with'', ''yield'']"

definition isDartKeyword :: "string \<Rightarrow> bool" where
  "isDartKeyword name = (name \<in> set dartKeywords)"

definition isValidDartVariableName :: "string \<Rightarrow> bool" where
  "isValidDartVariableName name = (matchesIdentifier name \<and> \<not> isDartKeyword name)"

text \<open>
  \<^verbatim>\<open>str.replace(/_([a-z])/g, (match, letter) => letter.toUpperCase())\<close>: scanning from the
  left, an underscore followed by a letter of \<^verbatim>\<open>[a-z]\<close> is replaced, with that letter, by
  the upper-cased letter, and the scan goes on after the letter.
\<close>

fun toCamelCase :: "string \<Rightarrow> string" where
  "toCamelCase [] = []"
| "toCamelCase [c] = [c]"
| "toCamelCase (c # d # rest) =
     (if c = CHR ''_'' \<and> isLower d then toUpperCase d # toCamelCase rest
      else c # toCamelCase (d # rest))"

text \<open>\<^verbatim>\<open>str.charAt(0).toUpperCase() + str.slice(1)\<close>\<close>

fun capitalize :: "string \<Rightarrow> string" where
  "capitalize [] = []"
| "capitalize (c # cs) = toUpperCase c # cs"

section \<open>Settings objects\<close>

text \<open>
  A settings object maps option names to booleans; a name it does not hold reads as
  \<^verbatim>\<open>undefined\<close>, which is falsy.
\<close>

type_synonym settings = "string \<Rightarrow> bool option"

definition truthy :: "settings \<Rightarrow> string \<Rightarrow> bool" where
  "truthy s k = (s k = Some True)"

section \<open>DartGenerator (src/script/dart-generator.js)\<close>

text \<open>
  The fields of \<^verbatim>\<open>this.options\<close> that the class reads; each is named after the option
  with the prefix \<open>opt_\<close>, since several methods share a name with an option.
\<close>

record options =
  opt_generateToJson :: bool
  opt_generateCopyWith :: bool
  opt_generateToString :: bool
  opt_generateKeys :: bool
  opt_useNum :: bool
  opt_useSerializable :: bool
  opt_useEquatable :: bool
  opt_useDefaultValue :: bool
  opt_generateComment :: bool

text \<open>
  An instance. The constructor creates \<^verbatim>\<open>this.options\<close> only; \<^verbatim>\<open>this.className\<close>, which
  \<^verbatim>\<open>generateToJson\<close> reads, is a property that stays \<^verbatim>\<open>undefined\<close> (\<open>None\<close>) until
  somebody assigns it.
\<close>

record DartGenerator =
  this_options :: options
  this_className :: "string option"

definition DartGenerator_new :: DartGenerator where
  "DartGenerator_new = \<lparr>
     this_options = \<lparr>
       opt_generateToJson = True,
       opt_generateCopyWith = True,
       opt_generateToString = True,
       opt_generateKeys = True,
       opt_useNum = False,
       opt_useSerializable = True,
       opt_useEquatable = True,
       opt_useDefaultValue = False,
       opt_generateComment = False\<rparr>,
     this_className = None\<rparr>"

text \<open>A property of the spread \<^verbatim>\<open>{ ...this.options, ...options }\<close>.\<close>

definition spread :: "bool \<Rightarrow> settings \<Rightarrow> string \<Rightarrow> bool" where
  "spread old s k = (case s k of Some b \<Rightarrow> b | None \<Rightarrow> old)"

definition setOptions :: "DartGenerator \<Rightarrow> settings \<Rightarrow> DartGenerator" where
  "setOptions g s = g\<lparr>this_options := \<lparr>
     opt_generateToJson = spread (opt_generateToJson (this_options g)) s ''generateToJson'',
     opt_generateCopyWith = spread (opt_generateCopyWith (this_options g)) s ''generateCopyWith'',
     opt_generateToString = spread (opt_generateToString (this_options g)) s ''generateToString'',
     opt_generateKeys = spread (opt_generateKeys (this_options g)) s ''generateKeys'',
     opt_useNum = spread (opt_useNum (this_options g)) s ''useNum'',
     opt_useSerializable = spread (opt_useSerializable (this_options g)) s ''useSerializable'',
     opt_useEquatable = spread (opt_useEquatable (this_options g)) s ''useEquatable'',
     opt_useDefaultValue = spread (opt_useDefaultValue (this_options g)) s ''useDefaultValue'',
     opt_generateComment = spread (opt_generateComment (this_options g)) s ''generateComment''\<rparr>\<rparr>"

text \<open>String concatenation renders \<^verbatim>\<open>undefined\<close> as the text \<^verbatim>\<open>undefined\<close>.\<close>

definition concatenated :: "string option \<Rightarrow> string" where
  "concatenated v = (case v of None \<Rightarrow> ''undefined'' | Some s \<Rightarrow> s)"

text \<open>The single quote, written apart where it would touch the end of a literal.\<close>

definition apos :: string where
  "apos = [CHR 0x27]"

text \<open>An element of \<^verbatim>\<open>properties\<close>: \<^verbatim>\<open>{ name, type, jsonKey, value }\<close>.\<close>

record property =
  prop_name :: string
  prop_type :: string
  prop_jsonKey :: string
  prop_value :: json

fun inferDartType :: "DartGenerator \<Rightarrow> json \<Rightarrow> string" where
  "inferDartType g JNull = ''dynamic''"
| "inferDartType g (JString s) = ''String''"
| "inferDartType g (JBool b) = ''bool''"
| "inferDartType g (JNumber n) =
     (if opt_useNum (this_options g) then ''num''
      else if Number_isInteger n then ''int'' else ''double'')"
| "inferDartType g (JArray []) = ''List<dynamic>''"
| "inferDartType g (JArray (x # xs)) = ''List<'' @ inferDartType g x @ ''>''"
| "inferDartType g (JObject kvs) = ''Map<String, dynamic>''"

text \<open>The loop of \<^verbatim>\<open>extractProperties\<close> over the entries, \<^verbatim>\<open>continue\<close> included.\<close>

fun extractLoop :: "DartGenerator \<Rightarrow> (string \<times> json) list \<Rightarrow> property list" where
  "extractLoop g [] = []"
| "extractLoop g ((key, v) # rest) =
     (if \<not> isValidDartVariableName key then extractLoop g rest
      else \<lparr>prop_name = toCamelCase key, prop_type = inferDartType g v,
            prop_jsonKey = key, prop_value = v\<rparr> # extractLoop g rest)"

definition extractProperties :: "platform \<Rightarrow> DartGenerator \<Rightarrow> json \<Rightarrow> js_error + property list" where
  "extractProperties P g obj =
     (case Object_entries P obj of Inl e \<Rightarrow> Inl e | Inr es \<Rightarrow> Inr (extractLoop g es))"

definition generateImports :: "DartGenerator \<Rightarrow> string" where
  \<open>generateImports g = join ''\<newline>''
     ((if opt_useSerializable (this_options g)
       then [''import 'package:json_annotation/json_annotation.dart';''] else [])
      @ (if opt_useEquatable (this_options g)
         then [''import 'package:equatable/equatable.dart';''] else [])
      @ (if opt_useSerializable (this_options g)
         then ['''', ''part 'model.g.dart';''] else []))\<close>

definition generateClassDeclaration :: "DartGenerator \<Rightarrow> string \<Rightarrow> string" where
  "generateClassDeclaration g className = join ''\<newline>''
     ((if opt_useSerializable (this_options g) then [''@JsonSerializable()''] else [])
      @ [''class '' @ className
           @ (if opt_useEquatable (this_options g) then '' extends Equatable'' else '''') @ '' {''])"

definition generateFields :: "DartGenerator \<Rightarrow> property list \<Rightarrow> string" where
  \<open>generateFields g properties = join ''\<newline>\<newline>''
     (map (\<lambda>prop. join ''\<newline>''
        ((if opt_generateKeys (this_options g) \<and> opt_useSerializable (this_options g)
          then [''  @JsonKey(name: '' @ apos @ prop_jsonKey prop @ apos @ '')''] else [])
         @ [''  final '' @ prop_type prop
              @ (if opt_useDefaultValue (this_options g) then '''' else ''?'')
              @ '' '' @ prop_name prop @ '';'']))
      properties)\<close>

text \<open>The array \<^verbatim>\<open>params\<close> of \<^verbatim>\<open>generateConstructor\<close>, before it is joined.\<close>

definition constructorParams :: "DartGenerator \<Rightarrow> property list \<Rightarrow> string list" where
  "constructorParams g properties =
     map (\<lambda>prop. ''    '' @ (if opt_useDefaultValue (this_options g) then ''required '' else '''')
                  @ ''this.'' @ prop_name prop)
       properties"

definition generateConstructor :: "DartGenerator \<Rightarrow> string \<Rightarrow> property list \<Rightarrow> string" where
  "generateConstructor g className properties = join ''\<newline>''
     [''  const '' @ className @ ''({'',
      join '',\<newline>'' (constructorParams g properties),
      ''  });'']"

definition getDefaultValue :: "string \<Rightarrow> string" where
  \<open>getDefaultValue t =
     (if t = ''String'' then apos @ apos
      else if t = ''int'' then ''0''
      else if t = ''double'' then ''0.0''
      else if t = ''num'' then ''0''
      else if t = ''bool'' then ''false''
      else ''null'')\<close>

text \<open>One element of \<^verbatim>\<open>assignments\<close> in the literal branch of \<^verbatim>\<open>generateFromJson\<close>.\<close>

definition fromJsonAssignment :: "DartGenerator \<Rightarrow> property \<Rightarrow> string" where
  \<open>fromJsonAssignment g prop =
     (let assignment = ''      '' @ prop_name prop @ '': json['' @ apos @ prop_jsonKey prop @ apos @ '']''
      in if prop_type prop \<noteq> ''dynamic'' \<and> \<not> opt_useDefaultValue (this_options g)
         then assignment @ '' as '' @ prop_type prop @ ''?''
         else if opt_useDefaultValue (this_options g)
         then assignment @ '' as '' @ prop_type prop @ ''? ?? '' @ getDefaultValue (prop_type prop)
         else assignment)\<close>

definition generateFromJson :: "DartGenerator \<Rightarrow> string \<Rightarrow> property list \<Rightarrow> string" where
  \<open>generateFromJson g className properties =
     (if \<not> opt_useSerializable (this_options g)
      then join ''\<newline>''
        [''  factory '' @ className @ ''.fromJson(Map<String, dynamic> json) {'',
         ''    return '' @ className @ ''('',
         join '',\<newline>'' (map (fromJsonAssignment g) properties),
         ''    );'',
         ''  }'']
      else ''  factory '' @ className @ ''.fromJson(Map<String, dynamic> json) => _$''
             @ className @ ''FromJson(json);'')\<close>

definition generateToJson :: "DartGenerator \<Rightarrow> property list \<Rightarrow> string" where
  \<open>generateToJson g properties =
     (if \<not> opt_generateToJson (this_options g) then ''''
      else if \<not> opt_useSerializable (this_options g)
      then join ''\<newline>''
        ['''',
         ''  Map<String, dynamic> toJson() {'',
         ''    return {'',
         join '',\<newline>''
           (map (\<lambda>prop. ''      '' @ apos @ prop_jsonKey prop @ apos @ '': '' @ prop_name prop)
              properties),
         ''    };'',
         ''  }'']
      else ''\<newline>  Map<String, dynamic> toJson() => _$'' @ concatenated (this_className g)
             @ ''ToJson(this);'')\<close>

definition generateCopyWith :: "DartGenerator \<Rightarrow> string \<Rightarrow> property list \<Rightarrow> string" where
  "generateCopyWith g className properties =
     (if \<not> opt_generateCopyWith (this_options g) then ''''
      else join ''\<newline>''
        ['''',
         ''  '' @ className @ '' copyWith({'',
         join '',\<newline>''
           (map (\<lambda>prop. ''    '' @ prop_type prop
                          @ (if opt_useDefaultValue (this_options g) then '''' else ''?'')
                          @ '' '' @ prop_name prop) properties),
         ''  }) {'',
         ''    return '' @ className @ ''('',
         join '',\<newline>''
           (map (\<lambda>prop. ''      '' @ prop_name prop @ '': '' @ prop_name prop
                          @ '' ?? this.'' @ prop_name prop) properties),
         ''    );'',
         ''  }''])"

definition generateToString :: "DartGenerator \<Rightarrow> string \<Rightarrow> property list \<Rightarrow> string" where
  \<open>generateToString g className properties =
     (if \<not> opt_generateToString (this_options g) then ''''
      else if opt_useEquatable (this_options g)
      then join ''\<newline>''
        ['''',
         ''  @override'',
         ''  List<Object?> get props => ['' @ join '', '' (map prop_name properties) @ ''];'']
      else join ''\<newline>''
        ['''',
         ''  @override'',
         ''  String toString() {'',
         ''    return '' @ apos @ className @ ''(''
           @ join '', '' (map (\<lambda>prop. prop_name prop @ '': $'' @ prop_name prop) properties)
           @ '')'' @ apos @ '';'',
         ''  }''])\<close>

definition generateJsonComment :: "platform \<Rightarrow> DartGenerator \<Rightarrow> string \<Rightarrow> js_error + string" where
  "generateJsonComment P g originalJson =
     (if \<not> opt_generateComment (this_options g) then Inr ''''
      else (case JSON_parse P originalJson of
              Inl e \<Rightarrow> Inl e
            | Inr parsed \<Rightarrow>
                Inr (''\<newline>\<newline>''
                     @ join ''\<newline>''
                         (map (\<lambda>line. ''// '' @ line) (splitLines (JSON_stringify P parsed))))))"

text \<open>
  The array that \<^verbatim>\<open>buildDartClass\<close> filters with \<^verbatim>\<open>Boolean\<close> (which drops the empty
  strings) and joins.
\<close>

definition classSections ::
  "DartGenerator \<Rightarrow> string \<Rightarrow> property list \<Rightarrow> string \<Rightarrow> string list" where
  "classSections g className properties jsonComment =
     [generateImports g,
      '''',
      generateClassDeclaration g className,
      generateFields g properties,
      '''',
      generateConstructor g className properties,
      '''',
      generateFromJson g className properties,
      generateToJson g properties,
      generateCopyWith g className properties,
      generateToString g className properties,
      ''}'',
      jsonComment]"

definition buildDartClass ::
  "platform \<Rightarrow> DartGenerator \<Rightarrow> string \<Rightarrow> json \<Rightarrow> string \<Rightarrow> js_error + string" where
  "buildDartClass P g className jsonObj originalJson =
     (case extractProperties P g jsonObj of
        Inl e \<Rightarrow> Inl e
      | Inr properties \<Rightarrow>
          (case generateJsonComment P g originalJson of
             Inl e \<Rightarrow> Inl e
           | Inr jsonComment \<Rightarrow>
               Inr (join ''\<newline>''
                      (filter (\<lambda>s. s \<noteq> '''')
                         (classSections g className properties jsonComment)))))"

text \<open>The body of the \<^verbatim>\<open>try\<close> block of \<^verbatim>\<open>generateDartClass\<close>.\<close>

definition generateDartClass_try ::
  "platform \<Rightarrow> DartGenerator \<Rightarrow> string \<Rightarrow> string \<Rightarrow> js_error + string" where
  "generateDartClass_try P g className jsonString =
     (case JSON_parse P jsonString of
        Inl e \<Rightarrow> Inl e
      | Inr jsonObj \<Rightarrow>
          (case jsonObj of
             JArray [] \<Rightarrow> Inl (Error ''Cannot generate class from empty array'')
           | JArray (first # others) \<Rightarrow> buildDartClass P g className first jsonString
           | _ \<Rightarrow> buildDartClass P g className jsonObj jsonString))"

text \<open>The \<^verbatim>\<open>catch\<close> clause rethrows whatever the block threw under a new message.\<close>

definition generateDartClass ::
  "platform \<Rightarrow> DartGenerator \<Rightarrow> string \<Rightarrow> string \<Rightarrow> js_error + string" where
  "generateDartClass P g className jsonString =
     (case generateDartClass_try P g className jsonString of
        Inl error \<Rightarrow> Inl (Error (''Invalid JSON: '' @ message error))
      | Inr text \<Rightarrow> Inr text)"

section \<open>ModelNewGenerator (src/unnamed/part_000)\<close>

record ModelNewGenerator =
  baseImports :: "string list"
  currentClassName :: "string option"

definition ModelNewGenerator_new :: ModelNewGenerator where
  \<open>ModelNewGenerator_new = \<lparr>
     baseImports =
       [''import 'dart:convert';'',
        '''',
        ''import '../main.dart';'',
        ''import 'base.dart';'',
        ''''],
     currentClassName = None\<rparr>\<close>

text \<open>\<^verbatim>\<open>this.currentClassName || 'Model'\<close>: unset and empty are both falsy.\<close>

definition getCurrentClassName :: "ModelNewGenerator \<Rightarrow> string" where
  "getCurrentClassName m =
     (case currentClassName m of
        None \<Rightarrow> ''Model''
      | Some s \<Rightarrow> if s = '''' then ''Model'' else s)"

definition setCurrentClassName :: "ModelNewGenerator \<Rightarrow> string \<Rightarrow> ModelNewGenerator" where
  "setCurrentClassName m className = m\<lparr>currentClassName := Some className\<rparr>"

text \<open>The five local arrays of \<^verbatim>\<open>generateProperties\<close>.\<close>

record propArrays =
  stringProps :: "string list"
  boolProps :: "string list"
  intProps :: "string list"
  doubleProps :: "string list"
  objectProps :: "string list"

definition noProps :: propArrays where
  "noProps = \<lparr>stringProps = [], boolProps = [], intProps = [], doubleProps = [], objectProps = []\<rparr>"

text \<open>The template \<^verbatim>\<open>`${this.capitalize(camelKey)}Model ${camelKey}`\<close> of a nested-object field.\<close>

definition modelDeclaration :: "string \<Rightarrow> string" where
  "modelDeclaration camelKey = capitalize camelKey @ ''Model '' @ camelKey"

text \<open>The \<^verbatim>\<open>switch (typeof value)\<close> of \<^verbatim>\<open>generateProperties\<close>.\<close>

fun pushProp :: "propArrays \<Rightarrow> string \<Rightarrow> json \<Rightarrow> propArrays" where
  "pushProp acc camelKey (JString s) = acc\<lparr>stringProps := stringProps acc @ [camelKey]\<rparr>"
| "pushProp acc camelKey (JBool b) = acc\<lparr>boolProps := boolProps acc @ [camelKey]\<rparr>"
| "pushProp acc camelKey (JNumber n) =
     (if Number_isInteger n then acc\<lparr>intProps := intProps acc @ [camelKey]\<rparr>
      else acc\<lparr>doubleProps := doubleProps acc @ [camelKey]\<rparr>)"
| "pushProp acc camelKey (JObject kvs) =
     acc\<lparr>objectProps := objectProps acc @ [modelDeclaration camelKey]\<rparr>"
| "pushProp acc camelKey (JArray xs) = acc"
| "pushProp acc camelKey JNull = acc"

text \<open>The callback of \<^verbatim>\<open>Object.keys(jsonData).forEach\<close> in \<^verbatim>\<open>generateProperties\<close>.\<close>

fun categorize :: "propArrays \<Rightarrow> string \<times> json \<Rightarrow> propArrays" where
  "categorize acc (key, v) =
     (if \<not> isValidDartVariableName key then acc else pushProp acc (toCamelCase key) v)"

definition declarations :: "propArrays \<Rightarrow> string" where
  "declarations p =
     (if length (stringProps p) > 0
      then ''  late String '' @ join '',\<newline>      '' (stringProps p) @ '';\<newline>'' else '''')
     @ (if length (boolProps p) > 0
        then ''  late bool '' @ join '',\<newline>      '' (boolProps p) @ '';\<newline>'' else '''')
     @ (if length (intProps p) > 0
        then ''  late int '' @ join '',\<newline>      '' (intProps p) @ '';\<newline>'' else '''')
     @ (if length (doubleProps p) > 0
        then ''  late double '' @ join '',\<newline>      '' (doubleProps p) @ '';\<newline>'' else '''')
     @ (if length (objectProps p) > 0
        then concat (map (\<lambda>prop. ''  late '' @ prop @ '';\<newline>'') (objectProps p)) else '''')"

definition ModelNew_generateProperties :: "platform \<Rightarrow> json \<Rightarrow> js_error + string" where
  "ModelNew_generateProperties P jsonData =
     (case Object_entries P jsonData of
        Inl e \<Rightarrow> Inl e
      | Inr es \<Rightarrow> Inr (trim (declarations (foldl categorize noProps es))))"

text \<open>What the callback in \<^verbatim>\<open>generateFromJson\<close> appends to \<^verbatim>\<open>method\<close> for one key.\<close>

fun fromJsonLine :: "string \<times> json \<Rightarrow> string" where
  \<open>fromJsonLine (key, v) =
     (if \<not> isValidDartVariableName key then ''''
      else (case v of
              JString s \<Rightarrow>
                ''    '' @ toCamelCase key @ '' = stringFromJson(json, "'' @ key @ ''");\<newline>''
            | JBool b \<Rightarrow>
                ''    '' @ toCamelCase key @ '' = boolFromJson(json, "'' @ key @ ''");\<newline>''
            | JNumber n \<Rightarrow>
                (if Number_isInteger n
                 then ''    '' @ toCamelCase key @ '' = intFromJson(json, "'' @ key @ ''");\<newline>''
                 else ''    '' @ toCamelCase key @ '' = doubleFromJson(json, "'' @ key @ ''");\<newline>'')
            | JObject kvs \<Rightarrow>
                ''    '' @ toCamelCase key @ '' = '' @ (capitalize (toCamelCase key) @ ''Model'')
                  @ ''.fromJson(json?["'' @ key @ ''"] ?? {});\<newline>''
            | JArray xs \<Rightarrow> ''''
            | JNull \<Rightarrow> ''''))\<close>

definition ModelNew_generateFromJson ::
  "platform \<Rightarrow> ModelNewGenerator \<Rightarrow> json \<Rightarrow> bool \<Rightarrow> js_error + string" where
  \<open>ModelNew_generateFromJson P m jsonData hasSingleton =
     (let constructorName =
            (if hasSingleton then ''fromJson'' else getCurrentClassName m @ ''.fromJson'')
      in case Object_entries P jsonData of
           Inl e \<Rightarrow> Inl e
         | Inr es \<Rightarrow>
             Inr (''  '' @ constructorName @ ''([Map<String, dynamic>? json]) {\<newline>''
                  @ ''    id = stringFromJson(json, "id");\<newline>''
                  @ concat (map fromJsonLine es)
                  @ ''  }''))\<close>

definition generateSaveMethod :: "platform \<Rightarrow> string \<Rightarrow> string" where
  "generateSaveMethod P className = join ''\<newline>''
     [''  save() {'',
      ''    Prefs.setString('' @ apos @ String_toLowerCase P className @ apos @ '', jsonEncode(toJson()));'',
      ''  }'']"

definition generateClearMethod :: "platform \<Rightarrow> string \<Rightarrow> string" where
  "generateClearMethod P className = join ''\<newline>''
     [''  clear() {'',
      ''    Prefs.remove('' @ apos @ String_toLowerCase P className @ apos @ '');'',
      ''    fromJson();'',
      ''  }'']"

definition generateGetMethod :: "platform \<Rightarrow> string \<Rightarrow> string" where
  \<open>generateGetMethod P className = join ''\<newline>''
     [''  get() {'',
      ''    String data = Prefs.getString('' @ apos @ String_toLowerCase P className @ apos
        @ '') ?? '{}';'',
      ''    fromJson(jsonDecode(data));'',
      ''  }'']\<close>

text \<open>One element of \<^verbatim>\<open>assignments\<close> in \<^verbatim>\<open>generateToJson\<close>.\<close>

fun toJsonAssignment :: "string \<times> json \<Rightarrow> string" where
  \<open>toJsonAssignment (key, v) =
     (case v of
        JObject kvs \<Rightarrow> ''        "'' @ key @ ''": '' @ toCamelCase key @ ''.toJson()''
      | _ \<Rightarrow> ''        "'' @ key @ ''": '' @ toCamelCase key)\<close>

definition ModelNew_generateToJson :: "platform \<Rightarrow> json \<Rightarrow> js_error + string" where
  \<open>ModelNew_generateToJson P jsonData =
     (case Object_entries P jsonData of
        Inl e \<Rightarrow> Inl e
      | Inr es \<Rightarrow>
          Inr (''  @override\<newline>  Map<String, dynamic> toJson() => {\<newline>''
               @ ''        "id": id,\<newline>''
               @ join '',\<newline>''
                   (map toJsonAssignment (filter (\<lambda>(key, v). isValidDartVariableName key) es))
               @ '',\<newline>''
               @ ''      };''))\<close>

text \<open>\<^verbatim>\<open>generate\<close> after the array check, \<^verbatim>\<open>jsonData\<close> being the template.\<close>

definition generate_template ::
  "platform \<Rightarrow> ModelNewGenerator \<Rightarrow> string \<Rightarrow> json \<Rightarrow> settings \<Rightarrow> js_error + string" where
  \<open>generate_template P m className jsonData s =
     (case ModelNew_generateProperties P jsonData of
        Inl e \<Rightarrow> Inl e
      | Inr properties \<Rightarrow>
     (case ModelNew_generateFromJson P m jsonData (truthy s ''singletonPattern'') of
        Inl e \<Rightarrow> Inl e
      | Inr fromJson \<Rightarrow>
     (case ModelNew_generateToJson P jsonData of
        Inl e \<Rightarrow> Inl e
      | Inr toJson \<Rightarrow>
          Inr (join ''\<newline>'' (baseImports m)
               @ ''class '' @ className @ '' extends Model {\<newline>''
               @ (if truthy s ''singletonPattern''
                  then ''  '' @ className @ ''._();\<newline>''
                       @ ''  static '' @ className @ '' i = '' @ className @ ''._();\<newline>\<newline>''
                  else '''')
               @ properties @ ''\<newline>\<newline>''
               @ fromJson @ ''\<newline>\<newline>''
               @ (if truthy s ''localSave''
                  then generateSaveMethod P className @ ''\<newline>\<newline>'' else '''')
               @ (if truthy s ''localClear''
                  then generateClearMethod P className @ ''\<newline>\<newline>'' else '''')
               @ (if truthy s ''localGet''
                  then generateGetMethod P className @ ''\<newline>\<newline>'' else '''')
               @ toJson @ ''\<newline>''
               @ ''}\<newline>''
               @ (if truthy s ''generateJsonComment''
                  then ''\<newline>/*\<newline>'' @ JSON_stringify P jsonData @ ''\<newline>*/''
                  else '''')))))\<close>

definition generate ::
  "platform \<Rightarrow> ModelNewGenerator \<Rightarrow> string \<Rightarrow> json \<Rightarrow> settings \<Rightarrow> js_error + string" where
  "generate P m className jsonData s =
     (case jsonData of
        JArray [] \<Rightarrow> Inl (Error ''Cannot generate class from empty array'')
      | JArray (first # others) \<Rightarrow> generate_template P m className first s
      | _ \<Rightarrow> generate_template P m className jsonData s)"

section \<open>The render call of JsonToDartConverter (src/script/script.js)\<close>

text \<open>The keys of \<^verbatim>\<open>this.checkboxes\<close>, in the order of \<^verbatim>\<open>initializeElements\<close>.\<close>

definition checkboxKeys :: "string list" where
  "checkboxKeys =
     [''generateToJson'', ''generateCopyWith'', ''generateToString'', ''generateKeys'',
      ''useNum'', ''useSerializable'', ''useEquatable'', ''useDefaultValue'',
      ''generateComment'', ''modelNew'', ''singletonPattern'',
      ''localSave'', ''localClear'', ''localGet'']"

text \<open>
  \<^verbatim>\<open>getCurrentSettings\<close>: for each key whose checkbox element exists on the page
  (\<open>present\<close>), the state of the checkbox (\<open>checked\<close>).
\<close>

definition getCurrentSettings :: "(string \<Rightarrow> bool) \<Rightarrow> (string \<Rightarrow> bool) \<Rightarrow> settings" where
  "getCurrentSettings present checked =
     (\<lambda>k. if k \<in> set checkboxKeys \<and> present k then Some (checked k) else None)"

text \<open>The two generator instances that the converter creates once and keeps.\<close>

record JsonToDartConverter =
  dartGenerator :: DartGenerator
  modelNewGenerator :: ModelNewGenerator

definition JsonToDartConverter_new :: JsonToDartConverter where
  "JsonToDartConverter_new =
     \<lparr>dartGenerator = DartGenerator_new, modelNewGenerator = ModelNewGenerator_new\<rparr>"

text \<open>What \<^verbatim>\<open>convert\<close> shows: the text put into the output area, or the message of \<^verbatim>\<open>showError\<close>.\<close>

datatype outcome = Output string | ShowError string

text \<open>
  \<^verbatim>\<open>convert\<close>, with \<open>className\<close> and \<open>jsonString\<close> the trimmed values of the two inputs.
  History and saved settings are written after the text is produced and are not read by it.
\<close>

definition convert ::
  "platform \<Rightarrow> (string \<Rightarrow> bool) \<Rightarrow> JsonToDartConverter \<Rightarrow> string \<Rightarrow> string \<Rightarrow> (string \<Rightarrow> bool)
     \<Rightarrow> outcome \<times> JsonToDartConverter" where
  "convert P present c className jsonString checked =
     (if className = '''' then (ShowError ''Please enter a class name'', c)
      else if jsonString = '''' then (ShowError ''Please enter JSON data'', c)
      else (case JSON_parse P jsonString of
              Inl e \<Rightarrow> (ShowError (''Error: '' @ message e), c)
            | Inr parsedJson \<Rightarrow>
                (let formattedJson = JSON_stringify P parsedJson;
                     s = getCurrentSettings present checked
                 in if truthy s ''modelNew''
                    then (let m = setCurrentClassName (modelNewGenerator c) className;
                              c' = c\<lparr>modelNewGenerator := m\<rparr>
                          in case generate P m className parsedJson s of
                               Inl e \<Rightarrow> (ShowError (''Error: '' @ message e), c')
                             | Inr dartClass \<Rightarrow> (Output dartClass, c'))
                    else (let g = setOptions (dartGenerator c) s;
                              c' = c\<lparr>dartGenerator := g\<rparr>
                          in case generateDartClass P g className formattedJson of
                               Inl e \<Rightarrow> (ShowError (''Error: '' @ message e), c')
                             | Inr dartClass \<Rightarrow> (Output dartClass, c')))))"

section \<open>Notions used to state and to prove the properties\<close>

text \<open>
  The identifier derivation as the specification words it, to be compared with
  \<^const>\<open>toCamelCase\<close>: every letter after an underscore is upper-cased and the underscore
  removed, whatever the case of the letter.
\<close>

fun toCamelCase_as_specified :: "string \<Rightarrow> string" where
  "toCamelCase_as_specified [] = []"
| "toCamelCase_as_specified [c] = [c]"
| "toCamelCase_as_specified (c # d # rest) =
     (if c = CHR ''_'' \<and> (isLower d \<or> isUpper d)
      then toUpperCase d # toCamelCase_as_specified rest
      else c # toCamelCase_as_specified (d # rest))"




text \<open>The names of the options that the constructor of the DartGenerator sets.\<close>

definition optionKeys :: "string list" where
  "optionKeys =
     [''generateToJson'', ''generateCopyWith'', ''generateToString'', ''generateKeys'',
      ''useNum'', ''useSerializable'', ''useEquatable'', ''useDefaultValue'',
      ''generateComment'']"

text \<open>
  Looking for three given characters in a row: \<open>progress\<close> is the state after one more
  character (0 none of the three seen, 1 the first, 2 the first two, 3 all three, and then
  for good), \<open>scan\<close> the state after a text. A text is \<open>quiet\<close> when, wherever it is put
  after a text that has not reached 3, it does not reach 3 either; quiet texts can be put
  together. This is how the absence of a \<^verbatim>\<open>toString()\<close> method and of the \<^verbatim>\<open>props\<close>
  getter in a whole class is shown: through the last three characters of \<^verbatim>\<open>toString()\<close>,
  and through the characters \<^verbatim>\<open>t?>\<close> of the getter's type \<^verbatim>\<open>List<Object?>\<close>.
\<close>

definition progress :: "char \<times> char \<times> char \<Rightarrow> nat \<Rightarrow> char \<Rightarrow> nat" where
  "progress pat st ch =
     (case pat of (a, b, c) \<Rightarrow>
        if st = 3 then 3
        else if ch = a then 1
        else if ch = b \<and> st = 1 then 2
        else if ch = c \<and> st = 2 then 3
        else 0)"

definition scan :: "char \<times> char \<times> char \<Rightarrow> nat \<Rightarrow> string \<Rightarrow> nat" where
  "scan pat st x = foldl (progress pat) st x"

definition quiet :: "char \<times> char \<times> char \<Rightarrow> string \<Rightarrow> bool" where
  "quiet pat x = (scan pat 0 x < 3 \<and> scan pat 1 x < 3 \<and> scan pat 2 x < 3)"

definition endOfToStringCall :: "char \<times> char \<times> char" where
  "endOfToStringCall = (CHR ''g'', CHR ''('', CHR '')'')"

definition endOfPropsType :: "char \<times> char \<times> char" where
  "endOfPropsType = (CHR ''t'', CHR ''?'', CHR ''>'')"

definition searched :: "char \<times> char \<times> char \<Rightarrow> bool" where
  "searched pat = (pat = endOfToStringCall \<or> pat = endOfPropsType)"

text \<open>
  The states of the converter that a page can be in: the fresh one, and the one left by
  any call of \<^const>\<open>convert\<close> from such a state. Which checkboxes exist is fixed by the page.
\<close>

inductive reachable :: "platform \<Rightarrow> (string \<Rightarrow> bool) \<Rightarrow> JsonToDartConverter \<Rightarrow> bool"
  for P :: platform and present :: "string \<Rightarrow> bool" where
  reachable_new: "reachable P present JsonToDartConverter_new"
| reachable_convert:
    "reachable P present c \<Longrightarrow>
     reachable P present (snd (convert P present c className jsonString checked))"

text \<open>
  What every such state has in common: \<^verbatim>\<open>this.className\<close> of the DartGenerator is unset,
  the imports of the ModelNewGenerator are those of its constructor, and an option whose
  checkbox the page does not have still holds the value the constructor gave it.
\<close>

definition settled :: "(string \<Rightarrow> bool) \<Rightarrow> JsonToDartConverter \<Rightarrow> bool" where
  "settled present c =
     (this_className (dartGenerator c) = None
      \<and> baseImports (modelNewGenerator c) = baseImports ModelNewGenerator_new
      \<and> (\<not> present ''generateToJson'' \<longrightarrow>
            opt_generateToJson (this_options (dartGenerator c))
              = opt_generateToJson (this_options DartGenerator_new))
      \<and> (\<not> present ''generateCopyWith'' \<longrightarrow>
            opt_generateCopyWith (this_options (dartGenerator c))
              = opt_generateCopyWith (this_options DartGenerator_new))
      \<and> (\<not> present ''generateToString'' \<longrightarrow>
            opt_generateToString (this_options (dartGenerator c))
              = opt_generateToString (this_options DartGenerator_new))
      \<and> (\<not> present ''generateKeys'' \<longrightarrow>
            opt_generateKeys (this_options (dartGenerator c))
              = opt_generateKeys (this_options DartGenerator_new))
      \<and> (\<not> present ''useNum'' \<longrightarrow>
            opt_useNum (this_options (dartGenerator c))
              = opt_useNum (this_options DartGenerator_new))
      \<and> (\<not> present ''useSerializable'' \<longrightarrow>
            opt_useSerializable (this_options (dartGenerator c))
              = opt_useSerializable (this_options DartGenerator_new))
      \<and> (\<not> present ''useEquatable'' \<longrightarrow>
            opt_useEquatable (this_options (dartGenerator c))
              = opt_useEquatable (this_options DartGenerator_new))
      \<and> (\<not> present ''useDefaultValue'' \<longrightarrow>
            opt_useDefaultValue (this_options (dartGenerator c))
              = opt_useDefaultValue (this_options DartGenerator_new))
      \<and> (\<not> present ''generateComment'' \<longrightarrow>
            opt_generateComment (this_options (dartGenerator c))
              = opt_generateComment (this_options DartGenerator_new)))"

subsection \<open>Concrete inputs for the examples\<close>

definition userEntries :: "(string \<times> json) list" where
  "userEntries = [(''id'', JNumber (Finite 1)), (''name'', JString ''Ann''), (''active'', JBool True)]"

definition userText :: string where
  \<open>userText = ''{\<newline>  "id": 1,\<newline>  "name": "Ann",\<newline>  "active": true\<newline>}''\<close>

text \<open>
  A host for the examples: its \<^verbatim>\<open>JSON.parse\<close> reads the empty array and the text of the
  user sample, its \<^verbatim>\<open>JSON.stringify\<close> prints these two values.
\<close>

definition exampleHost :: platform where
  "exampleHost = \<lparr>
     JSON_parse = (\<lambda>s. if s = ''[]'' then Inr (JArray [])
                        else if s = userText then Inr (JObject userEntries)
                        else Inl (Error ''Unexpected end of JSON input'')),
     JSON_stringify = (\<lambda>v. if v = JArray [] then ''[]'' else userText),
     String_toLowerCase = map (\<lambda>c. case map_of (zip upperChars lowerChars) c of
                                       Some l \<Rightarrow> l | None \<Rightarrow> c),
     nullToObject = Error ''Cannot convert undefined or null to object''\<rparr>"

text \<open>All checkboxes exist; the fresh form has the defaults of the option table checked.\<close>

definition allPresent :: "string \<Rightarrow> bool" where
  "allPresent k = True"

definition defaultChecked :: "string \<Rightarrow> bool" where
  "defaultChecked k =
     (k \<in> set [''generateToJson'', ''generateCopyWith'', ''generateToString'', ''generateKeys'',
                ''useSerializable'', ''useEquatable''])"

section \<open>Auxiliary facts\<close>

subsection \<open>Characters and identifiers\<close>

lemma underscore_not_lower: "\<not> isLower CHR ''_''"
  by (simp add: isLower_def lowerChars_def)

lemma upper_of_lower_table: "list_all (\<lambda>c. isUpper (toUpperCase c)) lowerChars"
  by code_simp

lemma upper_of_lower: "isLower c \<Longrightarrow> isUpper (toUpperCase c)"
  using upper_of_lower_table by (simp add: isLower_def list_all_iff)

lemma toCamelCase_no_underscore: "CHR ''_'' \<notin> set s \<Longrightarrow> toCamelCase s = s"
  by (induction s rule: toCamelCase.induct) auto

lemma toCamelCase_at_underscore:
  "toCamelCase (xs @ CHR ''_'' # c # ys) =
     (if isLower c then toCamelCase xs @ toUpperCase c # toCamelCase ys
      else toCamelCase xs @ CHR ''_'' # toCamelCase (c # ys))"
proof (induction xs rule: toCamelCase.induct)
  case 1
  then show ?case by simp
next
  case (2 a)
  then show ?case by (simp add: underscore_not_lower)
next
  case (3 a b rest)
  then show ?case by simp
qed

lemma toCamelCase_last_underscore:
  "toCamelCase (xs @ [CHR ''_'']) = toCamelCase xs @ [CHR ''_'']"
proof (induction xs rule: toCamelCase.induct)
  case 1
  then show ?case by simp
next
  case (2 a)
  then show ?case by (simp add: underscore_not_lower)
next
  case (3 a b rest)
  then show ?case by (cases rest) (auto simp: underscore_not_lower)
qed

lemma toCamelCase_changed_has_upper:
  "toCamelCase k \<noteq> k \<Longrightarrow> \<exists>c \<in> set (toCamelCase k). isUpper c"
  by (induction k rule: toCamelCase.induct) (auto simp: upper_of_lower split: if_splits)

lemma keywords_plain:
  "list_all (\<lambda>k. list_all (\<lambda>c. \<not> isUpper c \<and> c \<noteq> CHR ''_'') k) dartKeywords"
  by code_simp

lemma keyword_no_upper: "k \<in> set dartKeywords \<Longrightarrow> \<forall>c \<in> set k. \<not> isUpper c"
  using keywords_plain by (simp add: list_all_iff)

lemma keyword_no_underscore: "k \<in> set dartKeywords \<Longrightarrow> CHR ''_'' \<notin> set k"
  using keywords_plain unfolding list_all_iff by blast

text \<open>
  A key is a keyword exactly when its camel-cased form is one: the keywords hold no
  underscore, and a derivation that changes the key leaves an upper-case letter.
\<close>

lemma isDartKeyword_toCamelCase: "isDartKeyword (toCamelCase k) = isDartKeyword k"
proof
  assume "isDartKeyword (toCamelCase k)"
  then have kw: "toCamelCase k \<in> set dartKeywords"
    by (simp add: isDartKeyword_def)
  have "toCamelCase k = k"
  proof (rule ccontr)
    assume "toCamelCase k \<noteq> k"
    then obtain c where "c \<in> set (toCamelCase k)" and "isUpper c"
      using toCamelCase_changed_has_upper by blast
    with keyword_no_upper [OF kw] show False by blast
  qed
  with kw show "isDartKeyword k"
    by (simp add: isDartKeyword_def)
next
  assume "isDartKeyword k"
  then have kw: "k \<in> set dartKeywords"
    by (simp add: isDartKeyword_def)
  then have "toCamelCase k = k"
    using keyword_no_underscore toCamelCase_no_underscore by blast
  with kw show "isDartKeyword (toCamelCase k)"
    by (simp add: isDartKeyword_def)
qed

subsection \<open>The loop of extractProperties\<close>

lemma valid_iff_legal:
  "isValidDartVariableName k = (matchesIdentifier k \<and> \<not> isDartKeyword (toCamelCase k))"
  by (simp add: isValidDartVariableName_def isDartKeyword_toCamelCase)

lemma extractLoop_pairs:
  "map (\<lambda>p. (prop_jsonKey p, prop_value p)) (extractLoop g kvs) =
     filter (\<lambda>(k, v). isValidDartVariableName k) kvs"
  by (induction kvs) auto

lemma extractLoop_keys:
  "map prop_jsonKey (extractLoop g kvs) = filter isValidDartVariableName (map fst kvs)"
  by (induction kvs) auto

lemma extractLoop_fields:
  "p \<in> set (extractLoop g kvs) \<Longrightarrow>
     prop_name p = toCamelCase (prop_jsonKey p) \<and> prop_type p = inferDartType g (prop_value p)"
  by (induction kvs) (auto split: if_splits)

lemma count_list_distinct:
  "distinct xs \<Longrightarrow> count_list xs k = (if k \<in> set xs then 1 else 0)"
  by (induction xs) auto

section \<open>Identifier derivation\<close>

text \<open>
  C4 (as amended). The derived identifier is obtained from the key by upper-casing each
  letter of \<^verbatim>\<open>[a-z]\<close> that immediately follows an underscore and removing that underscore;
  every other character is left as it is. In particular an underscore in front of any
  other character (an upper-case letter, a digit, another underscore) and an underscore
  at the end are kept, and a key without underscore is its own identifier.
\<close>

theorem toCamelCase_lower_case_only:
  "toCamelCase (xs @ CHR ''_'' # c # ys) =
     (if isLower c then toCamelCase xs @ toUpperCase c # toCamelCase ys
      else toCamelCase xs @ CHR ''_'' # toCamelCase (c # ys))
   \<and> toCamelCase (xs @ [CHR ''_'']) = toCamelCase xs @ [CHR ''_'']
   \<and> (CHR ''_'' \<notin> set s \<longrightarrow> toCamelCase s = s)"
proof (intro conjI impI)
  show "toCamelCase (xs @ CHR ''_'' # c # ys) =
     (if isLower c then toCamelCase xs @ toUpperCase c # toCamelCase ys
      else toCamelCase xs @ CHR ''_'' # toCamelCase (c # ys))"
    by (rule toCamelCase_at_underscore)
  show "toCamelCase (xs @ [CHR ''_'']) = toCamelCase xs @ [CHR ''_'']"
    by (rule toCamelCase_last_underscore)
  show "toCamelCase s = s" if "CHR ''_'' \<notin> set s"
    using that by (rule toCamelCase_no_underscore)
qed

theorem toCamelCase_lower_case_only_witness:
  "CHR ''_'' \<notin> set ''name''
   \<and> toCamelCase ''name'' = ''name''
   \<and> toCamelCase ''user_name'' = ''userName''
   \<and> toCamelCase ''user_Name'' = ''user_Name''"
proof -
  have h: "CHR ''_'' \<notin> set ''name''" by simp
  have lo: "isLower CHR ''n''" and up: "\<not> isLower CHR ''N''"
    by (simp_all add: isLower_def lowerChars_def)
  have u: "toUpperCase CHR ''n'' = CHR ''N''"
    by (simp add: toUpperCase_def lowerChars_def upperChars_def)
  have a: "toCamelCase ''user'' = ''user''" "toCamelCase ''ame'' = ''ame''"
      "toCamelCase ''Name'' = ''Name''"
    by (simp_all add: toCamelCase_no_underscore)
  from toCamelCase_lower_case_only [of "''user''" "CHR ''n''" "''ame''" "''name''"]
    toCamelCase_lower_case_only [of "''user''" "CHR ''N''" "''ame''" "''name''"]
  show ?thesis using h lo up u a by simp
qed

text \<open>
  C4 as the specification words it fails on the key \<^verbatim>\<open>my_Key\<close>, which the legality check
  accepts: the code keeps the underscore in front of the upper-case letter, where
  "each letter immediately following an underscore" would give \<^verbatim>\<open>myKey\<close>.
\<close>

theorem toCamelCase_every_letter_counterexample:
  "isValidDartVariableName ''my_Key''
   \<and> toCamelCase ''my_Key'' = ''my_Key''
   \<and> toCamelCase_as_specified ''my_Key'' = ''myKey''"
  by code_simp

section \<open>Schema inference\<close>

text \<open>
  C7. For every JSON object, \<^verbatim>\<open>extractProperties\<close> succeeds and yields, in the object's own
  enumeration order, exactly the entries whose key matches \<^verbatim>\<open>[A-Za-z_][A-Za-z0-9_]*\<close> and
  whose camel-cased form is no reserved word: one descriptor for each such key (its
  identifier the camel-cased key, its type inferred from its value) and none for any
  other key.
\<close>

theorem extractProperties_one_descriptor_per_legal_key:
  "extractProperties P g (JObject kvs) = Inr (extractLoop g kvs)
   \<and> map (\<lambda>p. (prop_jsonKey p, prop_value p)) (extractLoop g kvs) =
       filter (\<lambda>(k, v). matchesIdentifier k \<and> \<not> isDartKeyword (toCamelCase k)) kvs
   \<and> (\<forall>p \<in> set (extractLoop g kvs).
         prop_name p = toCamelCase (prop_jsonKey p)
         \<and> prop_type p = inferDartType g (prop_value p))
   \<and> (distinct (map fst kvs) \<longrightarrow>
        (\<forall>k. count_list (map prop_jsonKey (extractLoop g kvs)) k =
           (if k \<in> fst ` set kvs \<and> matchesIdentifier k \<and> \<not> isDartKeyword (toCamelCase k)
            then 1 else 0)))"
proof (intro conjI)
  show "extractProperties P g (JObject kvs) = Inr (extractLoop g kvs)"
    by (simp add: extractProperties_def)
  show "map (\<lambda>p. (prop_jsonKey p, prop_value p)) (extractLoop g kvs) =
          filter (\<lambda>(k, v). matchesIdentifier k \<and> \<not> isDartKeyword (toCamelCase k)) kvs"
    by (simp add: extractLoop_pairs valid_iff_legal)
  show "\<forall>p \<in> set (extractLoop g kvs).
          prop_name p = toCamelCase (prop_jsonKey p)
          \<and> prop_type p = inferDartType g (prop_value p)"
    using extractLoop_fields by blast
  show "distinct (map fst kvs) \<longrightarrow>
        (\<forall>k. count_list (map prop_jsonKey (extractLoop g kvs)) k =
           (if k \<in> fst ` set kvs \<and> matchesIdentifier k \<and> \<not> isDartKeyword (toCamelCase k)
            then 1 else 0))"
  proof (intro impI allI)
    fix k
    assume "distinct (map fst kvs)"
    then have "distinct (filter isValidDartVariableName (map fst kvs))"
      by simp
    then show "count_list (map prop_jsonKey (extractLoop g kvs)) k =
           (if k \<in> fst ` set kvs \<and> matchesIdentifier k \<and> \<not> isDartKeyword (toCamelCase k)
            then 1 else 0)"
      by (auto simp: extractLoop_keys count_list_distinct valid_iff_legal)
  qed
qed

theorem extractProperties_one_descriptor_per_legal_key_witness:
  "distinct (map fst
      [(''user_name'', JString ''Ann''), (''class'', JBool True), (''2nd'', JNull), (''tags'', JArray [])])
   \<and> map prop_jsonKey (extractLoop DartGenerator_new
        [(''user_name'', JString ''Ann''), (''class'', JBool True), (''2nd'', JNull), (''tags'', JArray [])])
       = [''user_name'', ''tags'']
   \<and> count_list (map prop_jsonKey (extractLoop DartGenerator_new
        [(''user_name'', JString ''Ann''), (''class'', JBool True), (''2nd'', JNull), (''tags'', JArray [])]))
         ''tags'' = 1
   \<and> count_list (map prop_jsonKey (extractLoop DartGenerator_new
        [(''user_name'', JString ''Ann''), (''class'', JBool True), (''2nd'', JNull), (''tags'', JArray [])]))
         ''class'' = 0"
proof -
  let ?kvs = "[(''user_name'', JString ''Ann''), (''class'', JBool True), (''2nd'', JNull),
               (''tags'', JArray [])]"
  have d: "distinct (map fst ?kvs)" by simp
  have l1: "matchesIdentifier ''tags'' \<and> \<not> isDartKeyword (toCamelCase ''tags'')" by code_simp
  have l2: "isDartKeyword (toCamelCase ''class'')" by code_simp
  have l3: "map prop_jsonKey (extractLoop DartGenerator_new ?kvs) = [''user_name'', ''tags'']"
    by code_simp
  from extractProperties_one_descriptor_per_legal_key [of exampleHost DartGenerator_new ?kvs]
  have c: "\<forall>k. count_list (map prop_jsonKey (extractLoop DartGenerator_new ?kvs)) k =
           (if k \<in> fst ` set ?kvs \<and> matchesIdentifier k \<and> \<not> isDartKeyword (toCamelCase k)
            then 1 else 0)"
    using d by blast
  have c1: "count_list (map prop_jsonKey (extractLoop DartGenerator_new ?kvs)) ''tags'' = 1"
    using c [rule_format, of "''tags''"] l1 by simp
  have c2: "count_list (map prop_jsonKey (extractLoop DartGenerator_new ?kvs)) ''class'' = 0"
    using c [rule_format, of "''class''"] l2 by simp
  show ?thesis using d l3 c1 c2 by blast
qed

section \<open>The Standard Class Renderer\<close>

subsection \<open>Joined sections\<close>

lemma join_Cons: "join sep (x # xs) = x @ (if xs = [] then [] else sep @ join sep xs)"
  by (cases xs) simp_all

lemma sublist_join: "x \<in> set xs \<Longrightarrow> sublist x (join sep xs)"
proof (induction xs)
  case Nil
  then show ?case by simp
next
  case (Cons a xs)
  show ?case
  proof (cases "x = a")
    case True
    then show ?thesis by (simp add: join_Cons)
  next
    case False
    with Cons.prems have "x \<in> set xs" by simp
    then have "sublist x (join sep xs)" by (rule Cons.IH)
    then obtain ps ss where "join sep xs = ps @ x @ ss"
      by (auto simp: sublist_def)
    moreover from \<open>x \<in> set xs\<close> have "xs \<noteq> []" by auto
    ultimately have "join sep (a # xs) = (a @ sep @ ps) @ x @ ss"
      by (simp add: join_Cons)
    then show ?thesis unfolding sublist_def by blast
  qed
qed


lemma join_snoc: "xs \<noteq> [] \<Longrightarrow> join sep (xs @ [y]) = join sep xs @ sep @ y"
  by (induction xs) (auto simp: join_Cons)



lemma generateJsonComment_parsed:
  "JSON_parse P s = Inr v \<Longrightarrow> \<exists>jsonComment. generateJsonComment P g s = Inr jsonComment"
  by (simp add: generateJsonComment_def)

text \<open>For a text that parses to an object the render succeeds with the joined sections.\<close>

lemma generateDartClass_object:
  assumes "JSON_parse P s = Inr (JObject kvs)"
  shows "\<exists>jsonComment. generateDartClass P g className s =
     Inr (join ''\<newline>''
            (filter (\<lambda>s. s \<noteq> '''') (classSections g className (extractLoop g kvs) jsonComment)))"
proof -
  from generateJsonComment_parsed [OF assms] obtain jsonComment
    where "generateJsonComment P g s = Inr jsonComment" by blast
  with assms have "generateDartClass P g className s =
     Inr (join ''\<newline>''
            (filter (\<lambda>s. s \<noteq> '''') (classSections g className (extractLoop g kvs) jsonComment)))"
    by (simp add: generateDartClass_def generateDartClass_try_def buildDartClass_def
        extractProperties_def)
  then show ?thesis by blast
qed

lemma section_in_class:
  assumes "JSON_parse P s = Inr (JObject kvs)"
    and "\<And>jsonComment. x \<in> set (classSections g className (extractLoop g kvs) jsonComment)"
  shows "\<exists>text. generateDartClass P g className s = Inr text \<and> sublist x text"
proof -
  from generateDartClass_object [OF assms(1)] obtain jsonComment where
    t: "generateDartClass P g className s =
     Inr (join ''\<newline>''
            (filter (\<lambda>s. s \<noteq> '''') (classSections g className (extractLoop g kvs) jsonComment)))"
    by blast
  show ?thesis
  proof (cases "x = ''''")
    case True
    with t show ?thesis by simp
  next
    case False
    with assms(2) [of jsonComment]
    have "x \<in> set (filter (\<lambda>s. s \<noteq> '''')
             (classSections g className (extractLoop g kvs) jsonComment))"
      by simp
    then show ?thesis using t sublist_join by blast
  qed
qed


lemma setOptions_className: "this_className (setOptions g s) = this_className g"
  by (simp add: setOptions_def)

lemma exampleHost_parses_user: "JSON_parse exampleHost userText = Inr (JObject userEntries)"
  by (simp add: exampleHost_def userText_def)

subsection \<open>Characters of the rendered identifiers\<close>

lemma identStart_identChar: "isIdentStart c \<Longrightarrow> isIdentChar c"
  by (auto simp: isIdentStart_def isIdentChar_def)

lemma valid_identChars: "isValidDartVariableName k \<Longrightarrow> list_all isIdentChar k"
  by (cases k) (auto simp: isValidDartVariableName_def identStart_identChar)

lemma identChars_toCamelCase: "list_all isIdentChar k \<Longrightarrow> list_all isIdentChar (toCamelCase k)"
proof (induction k rule: toCamelCase.induct)
  case 1
  then show ?case by simp
next
  case (2 c)
  then show ?case by simp
next
  case (3 c d rest)
  then show ?case
    using upper_of_lower [of d] by (auto simp: isIdentChar_def)
qed

subsection \<open>The fields and the constructor\<close>








subsection \<open>Serialization by delegation\<close>

text \<open>
  C3 (what the code does). With the to-json switch and the serialization switch both on,
  \<^verbatim>\<open>generateToJson\<close> reads \<^verbatim>\<open>this.className\<close>, which no code assigns, instead of the class
  name of the render call: whatever the class name, the emitted method delegates to
  \<^verbatim>\<open>_$undefinedToJson\<close>, and the rendered class holds that line.
\<close>

theorem toJson_delegate_names_undefined:
  assumes "opt_generateToJson (this_options g)"
    and "opt_useSerializable (this_options g)"
    and "this_className g = None"
    and "JSON_parse P s = Inr (JObject kvs)"
  shows "generateToJson g properties =
           ''\<newline>  Map<String, dynamic> toJson() => _$undefinedToJson(this);''
         \<and> (\<exists>text. generateDartClass P g className s = Inr text
               \<and> sublist ''\<newline>  Map<String, dynamic> toJson() => _$undefinedToJson(this);'' text)"
proof -
  have t: "generateToJson g properties =
           ''\<newline>  Map<String, dynamic> toJson() => _$undefinedToJson(this);''"
    for properties
    using assms(1-3) by (simp add: generateToJson_def concatenated_def)
  have "\<exists>text. generateDartClass P g className s = Inr text
          \<and> sublist (generateToJson g (extractLoop g kvs)) text"
    by (rule section_in_class [OF assms(4)]) (simp add: classSections_def)
  with t show ?thesis by simp
qed

theorem toJson_delegate_names_undefined_witness:
  "opt_generateToJson
     (this_options (setOptions DartGenerator_new (getCurrentSettings allPresent defaultChecked)))
   \<and> opt_useSerializable
     (this_options (setOptions DartGenerator_new (getCurrentSettings allPresent defaultChecked)))
   \<and> this_className (setOptions DartGenerator_new (getCurrentSettings allPresent defaultChecked))
       = None
   \<and> JSON_parse exampleHost userText = Inr (JObject userEntries)
   \<and> (\<exists>text. generateDartClass exampleHost
                 (setOptions DartGenerator_new (getCurrentSettings allPresent defaultChecked))
                 ''User'' userText = Inr text
         \<and> sublist ''\<newline>  Map<String, dynamic> toJson() => _$undefinedToJson(this);'' text)"
proof -
  let ?g = "setOptions DartGenerator_new (getCurrentSettings allPresent defaultChecked)"
  have a: "opt_generateToJson (this_options ?g)" by code_simp
  have b: "opt_useSerializable (this_options ?g)" by code_simp
  have c: "this_className ?g = None"
    by (simp add: setOptions_className DartGenerator_new_def)
  note p = exampleHost_parses_user
  from toJson_delegate_names_undefined [OF a b c p, of "[]" "''User''"]
  show ?thesis using a b c p by blast
qed

subsection \<open>The empty array\<close>

text \<open>
  C5 (what the code does). On an empty array the Nested/Persistence renderer throws the
  error \<^verbatim>\<open>Cannot generate class from empty array\<close>. The Standard renderer throws the same
  error inside its own \<^verbatim>\<open>try\<close> block, whose \<^verbatim>\<open>catch\<close> rethrows it as
  \<^verbatim>\<open>Invalid JSON: Cannot generate class from empty array\<close>: the failure it reports is the
  one it reports for a text that does not parse. Neither produces any text.
\<close>

theorem empty_array_reported_as_invalid_json:
  "(JSON_parse P jsonString = Inr (JArray []) \<longrightarrow>
      generateDartClass P g className jsonString =
        Inl (Error ''Invalid JSON: Cannot generate class from empty array''))
   \<and> (JSON_parse P jsonString = Inl e \<longrightarrow>
      generateDartClass P g className jsonString = Inl (Error (''Invalid JSON: '' @ message e)))
   \<and> generate P m className (JArray []) st = Inl (Error ''Cannot generate class from empty array'')"
  by (simp add: generateDartClass_def generateDartClass_try_def generate_def)

theorem empty_array_reported_as_invalid_json_witness:
  "JSON_parse exampleHost ''[]'' = Inr (JArray [])
   \<and> generateDartClass exampleHost DartGenerator_new ''User'' ''[]'' =
        Inl (Error ''Invalid JSON: Cannot generate class from empty array'')
   \<and> JSON_parse exampleHost ''{'' = Inl (Error ''Unexpected end of JSON input'')
   \<and> generateDartClass exampleHost DartGenerator_new ''User'' ''{'' =
        Inl (Error ''Invalid JSON: Unexpected end of JSON input'')
   \<and> generate exampleHost ModelNewGenerator_new ''User'' (JArray []) Map.empty =
        Inl (Error ''Cannot generate class from empty array'')"
proof -
  have p: "JSON_parse exampleHost ''[]'' = Inr (JArray [])"
    by (simp add: exampleHost_def)
  have q: "JSON_parse exampleHost ''{'' = Inl (Error ''Unexpected end of JSON input'')"
    by (simp add: exampleHost_def userText_def)
  from empty_array_reported_as_invalid_json
    [of exampleHost "''[]''" DartGenerator_new "''User''" "Error ''Unexpected end of JSON input''"
      ModelNewGenerator_new Map.empty]
    empty_array_reported_as_invalid_json
    [of exampleHost "''{''" DartGenerator_new "''User''" "Error ''Unexpected end of JSON input''"
      ModelNewGenerator_new Map.empty]
  show ?thesis using p q by simp
qed

subsection \<open>Texts that the rendered class does not hold\<close>

lemma scan_Nil: "scan pat st [] = st"
  by (simp add: scan_def)

lemma scan_Cons: "scan pat st (ch # x) = scan pat (progress pat st ch) x"
  by (simp add: scan_def)

lemma scan_append: "scan pat st (x @ y) = scan pat (scan pat st x) y"
  by (simp add: scan_def)

lemma scan_found: "scan pat 3 x = 3"
  by (induction x) (simp_all add: scan_Nil scan_Cons progress_def split: prod.splits)

lemma quiet_from: "quiet pat x \<Longrightarrow> st < 3 \<Longrightarrow> scan pat st x < 3"
proof -
  assume q: "quiet pat x" and "st < 3"
  then have "st = 0 \<or> st = 1 \<or> st = 2" by arith
  with q show ?thesis by (auto simp: quiet_def)
qed

lemma quiet_Nil: "quiet pat []"
  by (simp add: quiet_def scan_Nil)

lemma quiet_append: "quiet pat x \<Longrightarrow> quiet pat y \<Longrightarrow> quiet pat (x @ y)"
  unfolding quiet_def [of pat "x @ y"] scan_append
  by (intro conjI quiet_from) (simp_all add: quiet_def)

lemma quiet_if: "quiet pat x \<Longrightarrow> quiet pat y \<Longrightarrow> quiet pat (if c then x else y)"
  by simp

lemma quiet_join:
  "quiet pat sep \<Longrightarrow> \<forall>x \<in> set xs. quiet pat x \<Longrightarrow> quiet pat (join sep xs)"
  by (induction xs) (auto simp: join_Cons quiet_Nil intro!: quiet_append)

lemma progress_free: "c \<noteq> ch \<Longrightarrow> st < 3 \<Longrightarrow> progress (a, b, c) st ch < 3"
  by (simp add: progress_def)

lemma scan_free: "c \<notin> set x \<Longrightarrow> st < 3 \<Longrightarrow> scan (a, b, c) st x < 3"
proof (induction x arbitrary: st)
  case Nil
  then show ?case by (simp add: scan_Nil)
next
  case (Cons ch x)
  from Cons.prems have "progress (a, b, c) st ch < 3"
    by (intro progress_free) auto
  with Cons.IH [of "progress (a, b, c) st ch"] Cons.prems show ?case
    by (simp add: scan_Cons)
qed

lemma quiet_free: "c \<notin> set x \<Longrightarrow> quiet (a, b, c) x"
  by (simp add: quiet_def scan_free)

lemma scan_pattern: "a \<noteq> b \<Longrightarrow> a \<noteq> c \<Longrightarrow> scan (a, b, c) st [a, b, c] = 3"
  by (simp add: scan_Cons scan_Nil progress_def)

lemma quiet_no_sublist:
  assumes "a \<noteq> b" and "a \<noteq> c" and "quiet (a, b, c) x"
  shows "\<not> sublist [a, b, c] x"
proof
  assume "sublist [a, b, c] x"
  then obtain ps ss where x: "x = ps @ [a, b, c] @ ss"
    by (auto simp: sublist_def)
  have "scan (a, b, c) 0 x = 3"
    unfolding x scan_append scan_pattern [OF assms(1,2)] by (rule scan_found)
  with assms(3) show False by (simp add: quiet_def)
qed

lemma sublist_trans: "sublist x y \<Longrightarrow> sublist y z \<Longrightarrow> sublist x z"
  by (meson sublist_order.order_trans)

lemma no_toString_call:
  assumes "quiet endOfToStringCall x"
  shows "\<not> sublist ''toString()'' x"
proof
  assume s: "sublist ''toString()'' x"
  have "''toString()'' = ''toStrin'' @ ''g()'' @ ''''" by simp
  then have "sublist ''g()'' ''toString()''"
    unfolding sublist_def by blast
  with s have "sublist ''g()'' x" by (rule sublist_trans [rotated])
  moreover have "\<not> sublist [CHR ''g'', CHR ''('', CHR '')''] x"
    using assms unfolding endOfToStringCall_def by (intro quiet_no_sublist) simp_all
  ultimately show False by simp
qed

lemma no_props_getter:
  assumes "quiet endOfPropsType x"
  shows "\<not> sublist ''List<Object?> get props'' x"
proof
  assume s: "sublist ''List<Object?> get props'' x"
  have "''List<Object?> get props'' = ''List<Objec'' @ ''t?>'' @ '' get props''" by simp
  then have "sublist ''t?>'' ''List<Object?> get props''"
    unfolding sublist_def by blast
  with s have "sublist ''t?>'' x" by (rule sublist_trans [rotated])
  moreover have "\<not> sublist [CHR ''t'', CHR ''?'', CHR ''>''] x"
    using assms unfolding endOfPropsType_def by (intro quiet_no_sublist) simp_all
  ultimately show False by simp
qed

lemma ball_Nil: "\<forall>y \<in> set []. P y"
  by simp

lemma ball_Cons: "P x \<Longrightarrow> \<forall>y \<in> set xs. P y \<Longrightarrow> \<forall>y \<in> set (x # xs). P y"
  by simp

lemma ball_map: "(\<And>p. p \<in> set ps \<Longrightarrow> P (f p)) \<Longrightarrow> \<forall>y \<in> set (map f ps). P y"
  by simp

lemma ball_append: "\<forall>y \<in> set xs. P y \<Longrightarrow> \<forall>y \<in> set ys. P y \<Longrightarrow> \<forall>y \<in> set (xs @ ys). P y"
  by auto

lemma ball_if:
  "\<forall>y \<in> set xs. P y \<Longrightarrow> \<forall>y \<in> set ys. P y \<Longrightarrow> \<forall>y \<in> set (if c then xs else ys). P y"
  by simp

lemmas quiet_intros =
  quiet_append quiet_if quiet_join quiet_Nil ball_Nil ball_Cons ball_map ball_append ball_if

lemmas quiet_eval =
  quiet_def scan_Cons scan_Nil progress_def endOfToStringCall_def endOfPropsType_def

lemma apos_quiet: "searched pat \<Longrightarrow> quiet pat apos"
  unfolding searched_def by (elim disjE) (simp_all add: quiet_eval apos_def)

lemma searched_cases:
  "searched pat \<Longrightarrow> quiet endOfToStringCall x \<Longrightarrow> quiet endOfPropsType x \<Longrightarrow> quiet pat x"
  by (auto simp: searched_def)

lemma apos_paren_quiet: "searched pat \<Longrightarrow> quiet pat (apos @ '')'')"
  unfolding searched_def by (elim disjE) (simp_all add: quiet_eval apos_def)

lemma literal_quiet:
  assumes "searched pat"
  shows "quiet pat ''}''" "quiet pat ''\<newline>''" "quiet pat ''''"
  by (rule searched_cases [OF assms]; simp add: quiet_eval)+

lemma generateImports_quiet:
  assumes "searched pat"
  shows "quiet pat (generateImports g)"
  unfolding generateImports_def
  apply (intro quiet_intros)
  apply (assumption | (rule searched_cases [OF assms(1)]; simp add: quiet_eval))+
  done

lemma generateClassDeclaration_quiet:
  assumes "searched pat" and "quiet pat className"
  shows "quiet pat (generateClassDeclaration g className)"
  unfolding generateClassDeclaration_def
  apply (intro quiet_intros assms(2))
  apply (assumption | (rule searched_cases [OF assms(1)]; simp add: quiet_eval))+
  done

lemma getDefaultValue_quiet: "searched pat \<Longrightarrow> quiet pat (getDefaultValue t)"
  unfolding searched_def by (elim disjE) (simp_all add: quiet_eval getDefaultValue_def apos_def)

lemma generateFields_quiet:
  assumes "searched pat"
    and "\<And>p. p \<in> set ps \<Longrightarrow>
           quiet pat (prop_name p) \<and> quiet pat (prop_jsonKey p) \<and> quiet pat (prop_type p)"
  shows "quiet pat (generateFields g ps)"
  unfolding generateFields_def
  apply (intro apos_paren_quiet [OF assms(1)] quiet_intros apos_quiet [OF assms(1)]
      assms(2) [THEN conjunct1]
      assms(2) [THEN conjunct2, THEN conjunct1] assms(2) [THEN conjunct2, THEN conjunct2])
  apply (assumption | (rule searched_cases [OF assms(1)]; simp add: quiet_eval))+
  done

lemma generateConstructor_quiet:
  assumes "searched pat" and "quiet pat className"
    and "\<And>p. p \<in> set ps \<Longrightarrow>
           quiet pat (prop_name p) \<and> quiet pat (prop_jsonKey p) \<and> quiet pat (prop_type p)"
  shows "quiet pat (generateConstructor g className ps)"
  unfolding generateConstructor_def constructorParams_def
  apply (intro quiet_intros assms(2) apos_quiet [OF assms(1)] assms(3) [THEN conjunct1]
      assms(3) [THEN conjunct2, THEN conjunct1] assms(3) [THEN conjunct2, THEN conjunct2])
  apply (assumption | (rule searched_cases [OF assms(1)]; simp add: quiet_eval))+
  done

lemma generateFromJson_quiet:
  assumes "searched pat" and "quiet pat className"
    and "\<And>p. p \<in> set ps \<Longrightarrow>
           quiet pat (prop_name p) \<and> quiet pat (prop_jsonKey p) \<and> quiet pat (prop_type p)"
  shows "quiet pat (generateFromJson g className ps)"
  unfolding generateFromJson_def fromJsonAssignment_def Let_def
  apply (intro quiet_intros assms(2) apos_quiet [OF assms(1)] assms(3) [THEN conjunct1]
      assms(3) [THEN conjunct2, THEN conjunct1] assms(3) [THEN conjunct2, THEN conjunct2]
      getDefaultValue_quiet [OF assms(1)])
  apply (assumption | (rule searched_cases [OF assms(1)]; simp add: quiet_eval))+
  done

lemma generateToJson_quiet:
  assumes "searched pat" and "this_className g = None"
    and "\<And>p. p \<in> set ps \<Longrightarrow>
           quiet pat (prop_name p) \<and> quiet pat (prop_jsonKey p) \<and> quiet pat (prop_type p)"
  shows "quiet pat (generateToJson g ps)"
  unfolding generateToJson_def concatenated_def assms(2) option.case
  apply (intro quiet_intros apos_quiet [OF assms(1)] assms(3) [THEN conjunct1]
      assms(3) [THEN conjunct2, THEN conjunct1] assms(3) [THEN conjunct2, THEN conjunct2])
  apply (assumption | (rule searched_cases [OF assms(1)]; simp add: quiet_eval))+
  done

lemma generateCopyWith_quiet:
  assumes "searched pat" and "quiet pat className"
    and "\<And>p. p \<in> set ps \<Longrightarrow>
           quiet pat (prop_name p) \<and> quiet pat (prop_jsonKey p) \<and> quiet pat (prop_type p)"
  shows "quiet pat (generateCopyWith g className ps)"
  unfolding generateCopyWith_def
  apply (intro quiet_intros assms(2) apos_quiet [OF assms(1)] assms(3) [THEN conjunct1]
      assms(3) [THEN conjunct2, THEN conjunct1] assms(3) [THEN conjunct2, THEN conjunct2])
  apply (assumption | (rule searched_cases [OF assms(1)]; simp add: quiet_eval))+
  done

lemma inferDartType_no_paren: "CHR '')'' \<notin> set (inferDartType g v)"
  by (induction g v rule: inferDartType.induct) simp_all

lemma inferDartType_settles:
  "st < 3 \<Longrightarrow> scan endOfPropsType st (inferDartType g v) < 2"
proof (induction g v arbitrary: st rule: inferDartType.induct)
  case (6 g x xs)
  have "st = 0 \<or> st = 1 \<or> st = 2" using "6.prems" by arith
  then have "scan endOfPropsType st ''List<'' < 3"
    by (auto simp: quiet_eval)
  then have "scan endOfPropsType (scan endOfPropsType st ''List<'') (inferDartType g x) < 2"
    by (rule "6.IH")
  then have "scan endOfPropsType (scan endOfPropsType (scan endOfPropsType st ''List<'')
               (inferDartType g x)) ''>'' < 2"
    by (auto simp: scan_Cons scan_Nil progress_def endOfPropsType_def)
  then show ?case
    by (simp only: inferDartType.simps scan_append)
qed (fastforce simp: quiet_eval)+

lemma inferDartType_quiet: "searched pat \<Longrightarrow> quiet pat (inferDartType g v)"
proof -
  assume "searched pat"
  moreover have "quiet endOfToStringCall (inferDartType g v)"
    unfolding endOfToStringCall_def by (rule quiet_free) (rule inferDartType_no_paren)
  moreover have "quiet endOfPropsType (inferDartType g v)"
    using inferDartType_settles [of _ g v] by (simp add: quiet_def less_trans [of _ 2 3])
  ultimately show ?thesis by (rule searched_cases)
qed

lemma identifier_quiet:
  assumes "searched pat" and "list_all isIdentChar x"
  shows "quiet pat x"
proof -
  have "\<not> isIdentChar CHR '')''" "\<not> isIdentChar CHR ''>''"
    by code_simp+
  with assms(2) have "CHR '')'' \<notin> set x" "CHR ''>'' \<notin> set x"
    by (auto simp: list_all_iff)
  then have "quiet endOfToStringCall x" "quiet endOfPropsType x"
    unfolding endOfToStringCall_def endOfPropsType_def by (simp_all add: quiet_free)
  with assms(1) show ?thesis by (rule searched_cases)
qed

lemma extractLoop_parts:
  "p \<in> set (extractLoop g kvs) \<Longrightarrow>
     list_all isIdentChar (prop_name p) \<and> list_all isIdentChar (prop_jsonKey p)
     \<and> prop_type p = inferDartType g (prop_value p)"
  by (induction kvs) (auto split: if_splits simp: valid_identChars identChars_toCamelCase)

lemma extractLoop_quiet:
  assumes "searched pat" and "p \<in> set (extractLoop g kvs)"
  shows "quiet pat (prop_name p) \<and> quiet pat (prop_jsonKey p) \<and> quiet pat (prop_type p)"
  using extractLoop_parts [OF assms(2)] identifier_quiet [OF assms(1)]
    inferDartType_quiet [OF assms(1)]
  by auto

lemma splitLines_nonempty: "splitLines x \<noteq> []"
  by (induction x) (auto split: list.splits)

lemma splitLines_chars: "l \<in> set (splitLines x) \<Longrightarrow> set l \<subseteq> set x"
proof (induction x arbitrary: l)
  case Nil
  then show ?case by simp
next
  case (Cons c cs)
  show ?case
  proof (cases "c = CHR ''\<newline>''")
    case True
    with Cons show ?thesis by auto
  next
    case False
    from splitLines_nonempty [of cs] obtain a list where s: "splitLines cs = a # list"
      by (cases "splitLines cs") auto
    from Cons.IH [of a] s have a: "set a \<subseteq> set cs" by simp
    from Cons.prems False s have "l = c # a \<or> l \<in> set list" by simp
    then show ?thesis
    proof
      assume "l = c # a"
      with a show ?thesis by auto
    next
      assume "l \<in> set list"
      with s have "l \<in> set (splitLines cs)" by simp
      from Cons.IH [OF this] show ?thesis by auto
    qed
  qed
qed

lemma generateJsonComment_quiet:
  assumes "searched pat"
    and "JSON_parse P s = Inr parsed"
    and "opt_generateComment (this_options g) \<longrightarrow>
           CHR '')'' \<notin> set (JSON_stringify P parsed) \<and> CHR ''>'' \<notin> set (JSON_stringify P parsed)"
    and "generateJsonComment P g s = Inr jsonComment"
  shows "quiet pat jsonComment"
proof (cases "opt_generateComment (this_options g)")
  case False
  with assms(4) have "jsonComment = ''''" by (simp add: generateJsonComment_def)
  then show ?thesis by (simp add: quiet_Nil)
next
  case True
  with assms(3) have free: "CHR '')'' \<notin> set (JSON_stringify P parsed)"
    "CHR ''>'' \<notin> set (JSON_stringify P parsed)" by simp_all
  have line: "quiet pat l" if "l \<in> set (splitLines (JSON_stringify P parsed))" for l
  proof -
    from splitLines_chars [OF that] free have "CHR '')'' \<notin> set l" "CHR ''>'' \<notin> set l"
      by auto
    then have "quiet endOfToStringCall l" "quiet endOfPropsType l"
      unfolding endOfToStringCall_def endOfPropsType_def by (simp_all add: quiet_free)
    with assms(1) show ?thesis by (rule searched_cases)
  qed
  have "generateJsonComment P g s = Inr (''\<newline>\<newline>''
       @ join ''\<newline>'' (map (\<lambda>line. ''// '' @ line) (splitLines (JSON_stringify P parsed))))"
    unfolding generateJsonComment_def
    by (simp only: True not_True_eq_False if_False assms(2) sum.case)
  with assms(4) have c: "''\<newline>\<newline>''
       @ join ''\<newline>'' (map (\<lambda>line. ''// '' @ line) (splitLines (JSON_stringify P parsed)))
       = jsonComment"
    by (simp only: sum.inject)
  show ?thesis
    unfolding c [symmetric]
    apply (intro quiet_intros)
    apply (erule line | (rule searched_cases [OF assms(1)]; simp add: quiet_eval))+
    done
qed

lemma generateToString_no_call:
  assumes "\<not> (opt_generateToString (this_options g) \<and> \<not> opt_useEquatable (this_options g))"
    and "\<And>p. p \<in> set ps \<Longrightarrow> quiet endOfToStringCall (prop_name p)"
  shows "quiet endOfToStringCall (generateToString g className ps)"
proof (cases "opt_generateToString (this_options g)")
  case False
  then show ?thesis by (simp add: generateToString_def quiet_Nil)
next
  case True
  with assms(1) have e: "opt_useEquatable (this_options g)" by simp
  show ?thesis
    unfolding generateToString_def
    apply (simp only: True e not_True_eq_False if_True if_False)
    apply (intro quiet_intros assms(2))
    apply (assumption | simp add: quiet_eval)+
    done
qed

lemma generateToString_no_getter:
  assumes "\<not> (opt_generateToString (this_options g) \<and> opt_useEquatable (this_options g))"
    and "quiet endOfPropsType className"
    and "\<And>p. p \<in> set ps \<Longrightarrow> quiet endOfPropsType (prop_name p)"
  shows "quiet endOfPropsType (generateToString g className ps)"
proof (cases "opt_generateToString (this_options g)")
  case False
  then show ?thesis by (simp add: generateToString_def quiet_Nil)
next
  case True
  with assms(1) have e: "\<not> opt_useEquatable (this_options g)" by simp
  show ?thesis
    unfolding generateToString_def
    apply (simp only: True e not_True_eq_False if_True if_False)
    apply (intro quiet_intros assms(2,3))
    apply (assumption | simp add: quiet_eval apos_def)+
    done
qed

lemma rendered_class_quiet:
  assumes "searched pat"
    and "JSON_parse P s = Inr (JObject kvs)"
    and "this_className g = None"
    and "quiet pat className"
    and "opt_generateComment (this_options g) \<longrightarrow>
           CHR '')'' \<notin> set (JSON_stringify P (JObject kvs))
           \<and> CHR ''>'' \<notin> set (JSON_stringify P (JObject kvs))"
    and "quiet pat (generateToString g className (extractLoop g kvs))"
    and "generateDartClass P g className s = Inr text"
  shows "quiet pat text"
proof -
  let ?ps = "extractLoop g kvs"
  from generateJsonComment_parsed [OF assms(2)] obtain jsonComment
    where c: "generateJsonComment P g s = Inr jsonComment" by blast
  with assms(2) have "generateDartClass P g className s =
     Inr (join ''\<newline>'' (filter (\<lambda>s. s \<noteq> '''') (classSections g className ?ps jsonComment)))"
    by (simp add: generateDartClass_def generateDartClass_try_def buildDartClass_def
        extractProperties_def)
  with assms(7) have t: "text =
     join ''\<newline>'' (filter (\<lambda>s. s \<noteq> '''') (classSections g className ?ps jsonComment))"
    by simp
  note ps = extractLoop_quiet [OF assms(1)]
  have "\<forall>x \<in> set (classSections g className ?ps jsonComment). quiet pat x"
    unfolding classSections_def
    by (intro ball_Cons ball_Nil literal_quiet [OF assms(1)] generateImports_quiet [OF assms(1)]
        generateClassDeclaration_quiet [OF assms(1,4)] generateFields_quiet [OF assms(1) ps]
        generateConstructor_quiet [OF assms(1,4) ps] generateFromJson_quiet [OF assms(1,4) ps]
        generateToJson_quiet [OF assms(1,3) ps] generateCopyWith_quiet [OF assms(1,4) ps]
        assms(6) generateJsonComment_quiet [OF assms(1,2,5) c])
  then have "\<forall>x \<in> set (filter (\<lambda>s. s \<noteq> '''') (classSections g className ?ps jsonComment)).
               quiet pat x"
    by simp
  with literal_quiet(2) [OF assms(1)] show ?thesis
    unfolding t by (rule quiet_join)
qed

lemma rendered_class_parts:
  assumes p: "JSON_parse P s = Inr (JObject kvs)"
  shows "generateDartClass P g className s =
     Inr (join ''\<newline>''
            (filter (\<lambda>s. s \<noteq> '''')
               [generateImports g, '''', generateClassDeclaration g className,
                generateFields g (extractLoop g kvs), '''',
                generateConstructor g className (extractLoop g kvs), '''',
                generateFromJson g className (extractLoop g kvs),
                generateToJson g (extractLoop g kvs),
                generateCopyWith g className (extractLoop g kvs),
                generateToString g className (extractLoop g kvs),
                ''}''])
          @ (if opt_generateComment (this_options g)
             then ''\<newline>\<newline>\<newline>''
                  @ join ''\<newline>''
                      (map (\<lambda>line. ''// '' @ line) (splitLines (JSON_stringify P (JObject kvs))))
             else ''''))"
proof -
  define J where "J = join ''\<newline>''
              (map (\<lambda>line. ''// '' @ line) (splitLines (JSON_stringify P (JObject kvs))))"
  define front where "front = filter (\<lambda>s. s \<noteq> '''')
      [generateImports g, '''', generateClassDeclaration g className,
       generateFields g (extractLoop g kvs), '''',
       generateConstructor g className (extractLoop g kvs), '''',
       generateFromJson g className (extractLoop g kvs),
       generateToJson g (extractLoop g kvs),
       generateCopyWith g className (extractLoop g kvs),
       generateToString g className (extractLoop g kvs),
       ''}'']"
  have ne: "front \<noteq> []"
    by (simp add: front_def)
  have sections: "filter (\<lambda>s. s \<noteq> '''') (classSections g className (extractLoop g kvs) c)
          = front @ (if c = '''' then [] else [c])" for c
    by (simp add: classSections_def front_def)
  have render: "generateDartClass P g className s =
     Inr (join ''\<newline>'' (front @ (if c = '''' then [] else [c])))"
    if "generateJsonComment P g s = Inr c" for c
    using p that
    by (simp add: generateDartClass_def generateDartClass_try_def buildDartClass_def
        extractProperties_def sections)
  show ?thesis
  proof (cases "opt_generateComment (this_options g)")
    case False
    then have "generateJsonComment P g s = Inr ''''"
      by (simp add: generateJsonComment_def)
    from render [OF this] False show ?thesis
      unfolding front_def by simp
  next
    case True
    have c: "generateJsonComment P g s = Inr (''\<newline>\<newline>'' @ J)"
      unfolding generateJsonComment_def J_def
      by (simp only: True p not_True_eq_False if_False sum.case)
    have "generateDartClass P g className s =
            Inr (join ''\<newline>'' (front @ [''\<newline>\<newline>'' @ J]))"
      using render [OF c] by simp
    also have "join ''\<newline>'' (front @ [''\<newline>\<newline>'' @ J]) =
                 join ''\<newline>'' front @ ''\<newline>'' @ ''\<newline>\<newline>'' @ J"
      using ne by (rule join_snoc)
    finally show ?thesis
      unfolding front_def J_def using True by simp
  qed
qed

lemma class_sections_quiet:
  assumes "searched pat"
    and "this_className g = None"
    and "quiet pat className"
    and "quiet pat (generateToString g className (extractLoop g kvs))"
  shows "quiet pat (join ''\<newline>''
            (filter (\<lambda>s. s \<noteq> '''')
               [generateImports g, '''', generateClassDeclaration g className,
                generateFields g (extractLoop g kvs), '''',
                generateConstructor g className (extractLoop g kvs), '''',
                generateFromJson g className (extractLoop g kvs),
                generateToJson g (extractLoop g kvs),
                generateCopyWith g className (extractLoop g kvs),
                generateToString g className (extractLoop g kvs),
                ''}'']))"
proof -
  let ?ps = "extractLoop g kvs"
  let ?sections = "[generateImports g, '''', generateClassDeclaration g className,
                generateFields g ?ps, '''', generateConstructor g className ?ps, '''',
                generateFromJson g className ?ps, generateToJson g ?ps,
                generateCopyWith g className ?ps, generateToString g className ?ps, ''}'']"
  note ps = extractLoop_quiet [OF assms(1)]
  have "\<forall>x \<in> set ?sections. quiet pat x"
    by (intro ball_Cons ball_Nil literal_quiet [OF assms(1)] generateImports_quiet [OF assms(1)]
        generateClassDeclaration_quiet [OF assms(1,3)] generateFields_quiet [OF assms(1) ps]
        generateConstructor_quiet [OF assms(1,3) ps] generateFromJson_quiet [OF assms(1,3) ps]
        generateToJson_quiet [OF assms(1,2) ps] generateCopyWith_quiet [OF assms(1,3) ps]
        assms(4))
  then have "\<forall>x \<in> set (filter (\<lambda>s. s \<noteq> '''') ?sections). quiet pat x"
    by simp
  with literal_quiet(2) [OF assms(1)] show ?thesis
    by (rule quiet_join)
qed

lemma toString_section_in_class:
  "sublist (generateToString g className ps)
     (join ''\<newline>''
        (filter (\<lambda>s. s \<noteq> '''')
           [generateImports g, '''', generateClassDeclaration g className,
            generateFields g ps, '''', generateConstructor g className ps, '''',
            generateFromJson g className ps, generateToJson g ps,
            generateCopyWith g className ps, generateToString g className ps, ''}'']))"
proof (cases "generateToString g className ps = ''''")
  case True
  then show ?thesis by simp
next
  case False
  then show ?thesis by (intro sublist_join) simp
qed

subsection \<open>String representation and equality\<close>

text \<open>
  C8. In the Standard Class Renderer, for every JSON object input, on a generator as the
  constructor leaves \<^verbatim>\<open>this.className\<close>, the output is the class, up to its closing brace,
  followed by the trailing comment if the comment switch is on. When the generateToString
  switch and the useEquatable switch are both on, the class holds the equality accessor
  (the \<^verbatim>\<open>props\<close> getter listing the field identifiers in order) and nowhere the text
  \<^verbatim>\<open>toString()\<close>; when generateToString is on and useEquatable is off, it holds the
  \<^verbatim>\<open>toString\<close> method instead, and nowhere the text \<^verbatim>\<open>List<Object?> get props\<close>; when
  generateToString is off, it holds neither text. The same holds of the whole output,
  comment included, when the pretty-printed JSON that the comment copies holds no \<^verbatim>\<open>)\<close>
  and no \<^verbatim>\<open>>\<close>. This is about the text the renderer writes itself: the class name is
  taken to hold no \<^verbatim>\<open>)\<close> and no \<^verbatim>\<open>>\<close> (a class name \<^verbatim>\<open>toString()\<close> would stand in the
  class header).
\<close>

theorem toString_switch_coupled_with_equality:
  assumes "JSON_parse P s = Inr (JObject kvs)"
    and "this_className g = None"
    and "CHR '')'' \<notin> set className" and "CHR ''>'' \<notin> set className"
  shows "\<exists>cls text.
       generateDartClass P g className s = Inr text
     \<and> text = cls @ (if opt_generateComment (this_options g)
                      then ''\<newline>\<newline>\<newline>''
                           @ join ''\<newline>''
                               (map (\<lambda>line. ''// '' @ line)
                                  (splitLines (JSON_stringify P (JObject kvs))))
                      else '''')
     \<and> (opt_generateToString (this_options g) \<and> opt_useEquatable (this_options g) \<longrightarrow>
          sublist (''\<newline>  @override\<newline>  List<Object?> get props => [''
                   @ join '', '' (map prop_name (extractLoop g kvs)) @ ''];'') cls
          \<and> \<not> sublist ''toString()'' cls)
     \<and> (opt_generateToString (this_options g) \<and> \<not> opt_useEquatable (this_options g) \<longrightarrow>
          sublist (''\<newline>  @override\<newline>  String toString() {\<newline>    return '' @ apos @ className @ ''(''
                   @ join '', '' (map (\<lambda>prop. prop_name prop @ '': $'' @ prop_name prop)
                                   (extractLoop g kvs))
                   @ '')'' @ apos @ '';\<newline>  }'') cls
          \<and> \<not> sublist ''List<Object?> get props'' cls)
     \<and> (\<not> opt_generateToString (this_options g) \<longrightarrow>
          \<not> sublist ''toString()'' cls \<and> \<not> sublist ''List<Object?> get props'' cls)
     \<and> ((opt_generateComment (this_options g) \<longrightarrow>
            CHR '')'' \<notin> set (JSON_stringify P (JObject kvs))
            \<and> CHR ''>'' \<notin> set (JSON_stringify P (JObject kvs))) \<longrightarrow>
          (opt_generateToString (this_options g) \<and> opt_useEquatable (this_options g) \<longrightarrow>
             \<not> sublist ''toString()'' text)
          \<and> (opt_generateToString (this_options g) \<and> \<not> opt_useEquatable (this_options g) \<longrightarrow>
             \<not> sublist ''List<Object?> get props'' text)
          \<and> (\<not> opt_generateToString (this_options g) \<longrightarrow>
             \<not> sublist ''toString()'' text \<and> \<not> sublist ''List<Object?> get props'' text))"
proof -
  let ?ps = "extractLoop g kvs"
  define cls where "cls = join ''\<newline>''
            (filter (\<lambda>s. s \<noteq> '''')
               [generateImports g, '''', generateClassDeclaration g className,
                generateFields g ?ps, '''', generateConstructor g className ?ps, '''',
                generateFromJson g className ?ps, generateToJson g ?ps,
                generateCopyWith g className ?ps, generateToString g className ?ps, ''}''])"
  define out where "out = cls @ (if opt_generateComment (this_options g)
                      then ''\<newline>\<newline>\<newline>''
                           @ join ''\<newline>''
                               (map (\<lambda>line. ''// '' @ line)
                                  (splitLines (JSON_stringify P (JObject kvs))))
                      else '''')"
  have t: "generateDartClass P g className s = Inr out"
    unfolding out_def cls_def by (rule rendered_class_parts [OF assms(1)])
  have sec: "sublist (generateToString g className ?ps) cls"
    unfolding cls_def by (rule toString_section_in_class)
  have sG: "searched endOfToStringCall" and sT: "searched endOfPropsType"
    by (simp_all add: searched_def)
  have cG: "quiet endOfToStringCall className"
    unfolding endOfToStringCall_def using assms(3) by (rule quiet_free)
  have cT: "quiet endOfPropsType className"
    unfolding endOfPropsType_def using assms(4) by (rule quiet_free)
  have nG: "quiet endOfToStringCall (prop_name p)" if "p \<in> set ?ps" for p
    using extractLoop_quiet [OF sG that] by simp
  have nT: "quiet endOfPropsType (prop_name p)" if "p \<in> set ?ps" for p
    using extractLoop_quiet [OF sT that] by simp
  have no_call: "\<not> sublist ''toString()'' cls"
    if "\<not> (opt_generateToString (this_options g) \<and> \<not> opt_useEquatable (this_options g))"
    unfolding cls_def
    by (intro no_toString_call class_sections_quiet [OF sG assms(2) cG]
        generateToString_no_call [OF that] nG)
  have no_getter: "\<not> sublist ''List<Object?> get props'' cls"
    if "\<not> (opt_generateToString (this_options g) \<and> opt_useEquatable (this_options g))"
    unfolding cls_def
    by (intro no_props_getter class_sections_quiet [OF sT assms(2) cT]
        generateToString_no_getter [OF that cT] nT)
  have out_no_call: "\<not> sublist ''toString()'' out"
    if "\<not> (opt_generateToString (this_options g) \<and> \<not> opt_useEquatable (this_options g))"
      and "opt_generateComment (this_options g) \<longrightarrow>
            CHR '')'' \<notin> set (JSON_stringify P (JObject kvs))
            \<and> CHR ''>'' \<notin> set (JSON_stringify P (JObject kvs))"
    by (intro no_toString_call rendered_class_quiet [OF sG assms(1,2) cG that(2) _ t]
        generateToString_no_call [OF that(1)] nG)
  have out_no_getter: "\<not> sublist ''List<Object?> get props'' out"
    if "\<not> (opt_generateToString (this_options g) \<and> opt_useEquatable (this_options g))"
      and "opt_generateComment (this_options g) \<longrightarrow>
            CHR '')'' \<notin> set (JSON_stringify P (JObject kvs))
            \<and> CHR ''>'' \<notin> set (JSON_stringify P (JObject kvs))"
    by (intro no_props_getter rendered_class_quiet [OF sT assms(1,2) cT that(2) _ t]
        generateToString_no_getter [OF that(1) cT] nT)
  have both: "sublist (''\<newline>  @override\<newline>  List<Object?> get props => [''
                   @ join '', '' (map prop_name ?ps) @ ''];'') cls
          \<and> \<not> sublist ''toString()'' cls"
    if on: "opt_generateToString (this_options g) \<and> opt_useEquatable (this_options g)"
  proof -
    from on have "generateToString g className ?ps =
        ''\<newline>  @override\<newline>  List<Object?> get props => [''
        @ join '', '' (map prop_name ?ps) @ ''];''"
      by (simp add: generateToString_def)
    with sec no_call on show ?thesis by simp
  qed
  have instead: "sublist (''\<newline>  @override\<newline>  String toString() {\<newline>    return '' @ apos @ className @ ''(''
                   @ join '', '' (map (\<lambda>prop. prop_name prop @ '': $'' @ prop_name prop) ?ps)
                   @ '')'' @ apos @ '';\<newline>  }'') cls
          \<and> \<not> sublist ''List<Object?> get props'' cls"
    if on: "opt_generateToString (this_options g) \<and> \<not> opt_useEquatable (this_options g)"
  proof -
    from on have "generateToString g className ?ps =
        ''\<newline>  @override\<newline>  String toString() {\<newline>    return '' @ apos @ className @ ''(''
        @ join '', '' (map (\<lambda>prop. prop_name prop @ '': $'' @ prop_name prop) ?ps)
        @ '')'' @ apos @ '';\<newline>  }''"
      by (simp add: generateToString_def)
    with sec no_getter on show ?thesis by simp
  qed
  have whole: "(opt_generateToString (this_options g) \<and> opt_useEquatable (this_options g) \<longrightarrow>
             \<not> sublist ''toString()'' out)
          \<and> (opt_generateToString (this_options g) \<and> \<not> opt_useEquatable (this_options g) \<longrightarrow>
             \<not> sublist ''List<Object?> get props'' out)
          \<and> (\<not> opt_generateToString (this_options g) \<longrightarrow>
             \<not> sublist ''toString()'' out \<and> \<not> sublist ''List<Object?> get props'' out)"
    if "opt_generateComment (this_options g) \<longrightarrow>
            CHR '')'' \<notin> set (JSON_stringify P (JObject kvs))
            \<and> CHR ''>'' \<notin> set (JSON_stringify P (JObject kvs))"
    using out_no_call [OF _ that] out_no_getter [OF _ that] by blast
  from t out_def both instead no_call no_getter whole show ?thesis by blast
qed

theorem toString_switch_coupled_with_equality_witness:
  \<open>JSON_parse exampleHost userText = Inr (JObject userEntries)
   \<and> CHR '')'' \<notin> set ''User'' \<and> CHR ''>'' \<notin> set ''User''
   \<and> opt_generateComment (this_options (setOptions DartGenerator_new [''generateComment'' \<mapsto> True]))
   \<and> CHR '')'' \<notin> set (JSON_stringify exampleHost (JObject userEntries))
   \<and> CHR ''>'' \<notin> set (JSON_stringify exampleHost (JObject userEntries))
   \<and> (\<exists>cls. generateDartClass exampleHost
                 (setOptions DartGenerator_new [''generateComment'' \<mapsto> True]) ''User'' userText
               = Inr (cls @ ''\<newline>\<newline>\<newline>// {\<newline>//   "id": 1,\<newline>//   "name": "Ann",\<newline>//   "active": true\<newline>// }'')
         \<and> sublist ''\<newline>  @override\<newline>  List<Object?> get props => [id, name, active];'' cls
         \<and> \<not> sublist ''toString()'' cls
         \<and> \<not> sublist ''toString()'' (cls @ ''\<newline>\<newline>\<newline>// {\<newline>//   "id": 1,\<newline>//   "name": "Ann",\<newline>//   "active": true\<newline>// }''))
   \<and> (\<exists>text. generateDartClass exampleHost
                 (setOptions DartGenerator_new [''useEquatable'' \<mapsto> False]) ''User'' userText
               = Inr text
         \<and> sublist ''\<newline>  @override\<newline>  String toString() {\<newline>    return 'User(id: $id, name: $name, active: $active)';\<newline>  }'' text
         \<and> \<not> sublist ''List<Object?> get props'' text)
   \<and> (\<exists>text. generateDartClass exampleHost
                 (setOptions DartGenerator_new [''generateToString'' \<mapsto> False]) ''User'' userText
               = Inr text
         \<and> \<not> sublist ''toString()'' text \<and> \<not> sublist ''List<Object?> get props'' text)\<close>
proof -
  let ?g1 = "setOptions DartGenerator_new [''generateComment'' \<mapsto> True]"
  let ?g2 = "setOptions DartGenerator_new [''useEquatable'' \<mapsto> False]"
  let ?g3 = "setOptions DartGenerator_new [''generateToString'' \<mapsto> False]"
  note p = exampleHost_parses_user
  have c1: "this_className ?g1 = None" and c2: "this_className ?g2 = None"
    and c3: "this_className ?g3 = None"
    by (simp_all add: setOptions_className DartGenerator_new_def)
  have u: "CHR '')'' \<notin> set ''User''" "CHR ''>'' \<notin> set ''User''"
    by simp_all
  have j: "CHR '')'' \<notin> set (JSON_stringify exampleHost (JObject userEntries))"
    "CHR ''>'' \<notin> set (JSON_stringify exampleHost (JObject userEntries))"
    by code_simp+
  have o1: "opt_generateToString (this_options ?g1) \<and> opt_useEquatable (this_options ?g1)"
    and k1: "opt_generateComment (this_options ?g1)"
    by code_simp+
  have o2: "opt_generateToString (this_options ?g2) \<and> \<not> opt_useEquatable (this_options ?g2)"
    and k2: "\<not> opt_generateComment (this_options ?g2)"
    by code_simp+
  have o3: "\<not> opt_generateToString (this_options ?g3)"
    and k3: "\<not> opt_generateComment (this_options ?g3)"
    by code_simp+
  have n1: "join '', '' (map prop_name (extractLoop ?g1 userEntries)) = ''id, name, active''"
    by code_simp
  have n2: "join '', '' (map (\<lambda>prop. prop_name prop @ '': $'' @ prop_name prop)
                           (extractLoop ?g2 userEntries)) =
             ''id: $id, name: $name, active: $active''"
    by code_simp
  have m: \<open>''\<newline>\<newline>\<newline>'' @ join ''\<newline>''
             (map (\<lambda>line. ''// '' @ line)
                (splitLines (JSON_stringify exampleHost (JObject userEntries)))) =
           ''\<newline>\<newline>\<newline>// {\<newline>//   "id": 1,\<newline>//   "name": "Ann",\<newline>//   "active": true\<newline>// }''\<close>
    by code_simp
  from toString_switch_coupled_with_equality [OF p c1 u] j o1 k1
  have a: \<open>\<exists>cls. generateDartClass exampleHost ?g1 ''User'' userText =
             Inr (cls @ ''\<newline>\<newline>\<newline>'' @ join ''\<newline>''
                    (map (\<lambda>line. ''// '' @ line)
                       (splitLines (JSON_stringify exampleHost (JObject userEntries)))))
         \<and> sublist (''\<newline>  @override\<newline>  List<Object?> get props => [''
                   @ join '', '' (map prop_name (extractLoop ?g1 userEntries)) @ ''];'') cls
         \<and> \<not> sublist ''toString()'' cls
         \<and> \<not> sublist ''toString()'' (cls @ ''\<newline>\<newline>\<newline>'' @ join ''\<newline>''
                    (map (\<lambda>line. ''// '' @ line)
                       (splitLines (JSON_stringify exampleHost (JObject userEntries)))))\<close>
    by (simp only: if_True) blast
  from toString_switch_coupled_with_equality [OF p c2 u] k2 o2
  have b: \<open>\<exists>text. generateDartClass exampleHost ?g2 ''User'' userText = Inr text
         \<and> sublist (''\<newline>  @override\<newline>  String toString() {\<newline>    return '' @ apos @ ''User'' @ ''(''
                   @ join '', '' (map (\<lambda>prop. prop_name prop @ '': $'' @ prop_name prop)
                                   (extractLoop ?g2 userEntries))
                   @ '')'' @ apos @ '';\<newline>  }'') text
         \<and> \<not> sublist ''List<Object?> get props'' text\<close>
    by (simp only: if_False append_Nil2) blast
  from toString_switch_coupled_with_equality [OF p c3 u] k3 o3
  have c: \<open>\<exists>text. generateDartClass exampleHost ?g3 ''User'' userText = Inr text
         \<and> \<not> sublist ''toString()'' text \<and> \<not> sublist ''List<Object?> get props'' text\<close>
    by (simp only: if_False append_Nil2) blast
  from a have a': \<open>\<exists>cls. generateDartClass exampleHost ?g1 ''User'' userText
               = Inr (cls @ ''\<newline>\<newline>\<newline>// {\<newline>//   "id": 1,\<newline>//   "name": "Ann",\<newline>//   "active": true\<newline>// }'')
         \<and> sublist ''\<newline>  @override\<newline>  List<Object?> get props => [id, name, active];'' cls
         \<and> \<not> sublist ''toString()'' cls
         \<and> \<not> sublist ''toString()'' (cls @ ''\<newline>\<newline>\<newline>// {\<newline>//   "id": 1,\<newline>//   "name": "Ann",\<newline>//   "active": true\<newline>// }'')\<close>
    unfolding n1 m by simp
  from b have b': \<open>\<exists>text. generateDartClass exampleHost ?g2 ''User'' userText = Inr text
         \<and> sublist ''\<newline>  @override\<newline>  String toString() {\<newline>    return 'User(id: $id, name: $name, active: $active)';\<newline>  }'' text
         \<and> \<not> sublist ''List<Object?> get props'' text\<close>
    unfolding n2 by (simp add: apos_def)
  from p u k1 j a' b' c show ?thesis by blast
qed

section \<open>The Nested/Persistence Class Renderer\<close>













lemma generateFromJson_object:
  \<open>ModelNew_generateFromJson P m (JObject kvs) hasSingleton =
     Inr (''  '' @ (if hasSingleton then ''fromJson'' else getCurrentClassName m @ ''.fromJson'')
          @ ''([Map<String, dynamic>? json]) {\<newline>''
          @ ''    id = stringFromJson(json, "id");\<newline>''
          @ concat (map fromJsonLine kvs)
          @ ''  }'')\<close>
  by (simp add: ModelNew_generateFromJson_def)

lemma generateToJson_object:
  \<open>ModelNew_generateToJson P (JObject kvs) =
     Inr (''  @override\<newline>  Map<String, dynamic> toJson() => {\<newline>''
          @ ''        "id": id,\<newline>''
          @ join '',\<newline>''
              (map toJsonAssignment (filter (\<lambda>(key, v). isValidDartVariableName key) kvs))
          @ '',\<newline>''
          @ ''      };'')\<close>
  by (simp add: ModelNew_generateToJson_def)

lemma generateProperties_object:
  "ModelNew_generateProperties P (JObject kvs) =
     Inr (trim (declarations (foldl categorize noProps kvs)))"
  by (simp add: ModelNew_generateProperties_def)

lemma generate_object:
  "generate P m className (JObject kvs) s = generate_template P m className (JObject kvs) s"
  by (simp add: generate_def)


lemma generate_object_parts:
  assumes f: "ModelNew_generateFromJson P m (JObject kvs) (truthy s ''singletonPattern'') = Inr f"
    and t: "ModelNew_generateToJson P (JObject kvs) = Inr t"
  shows "\<exists>pre mid. generate P m className (JObject kvs) s =
           Inr (pre @ f @ mid @ t @ ''\<newline>'' @ ''}\<newline>''
                @ (if truthy s ''generateJsonComment''
                   then ''\<newline>/*\<newline>'' @ JSON_stringify P (JObject kvs) @ ''\<newline>*/''
                   else ''''))"
proof -
  let ?pre = "join ''\<newline>'' (baseImports m)
               @ ''class '' @ className @ '' extends Model {\<newline>''
               @ (if truthy s ''singletonPattern''
                  then ''  '' @ className @ ''._();\<newline>''
                       @ ''  static '' @ className @ '' i = '' @ className @ ''._();\<newline>\<newline>''
                  else '''')
               @ trim (declarations (foldl categorize noProps kvs)) @ ''\<newline>\<newline>''"
  let ?mid = "''\<newline>\<newline>''
               @ (if truthy s ''localSave''
                  then generateSaveMethod P className @ ''\<newline>\<newline>'' else '''')
               @ (if truthy s ''localClear''
                  then generateClearMethod P className @ ''\<newline>\<newline>'' else '''')
               @ (if truthy s ''localGet''
                  then generateGetMethod P className @ ''\<newline>\<newline>'' else '''')"
  have "generate P m className (JObject kvs) s =
           Inr (?pre @ f @ ?mid @ t @ ''\<newline>'' @ ''}\<newline>''
                @ (if truthy s ''generateJsonComment''
                   then ''\<newline>/*\<newline>'' @ JSON_stringify P (JObject kvs) @ ''\<newline>*/''
                   else ''''))"
    unfolding generate_object generate_template_def generateProperties_object f t
    by (simp only: sum.case append_assoc)
  then show ?thesis by blast
qed


lemma fromJson_assigns_id:
  \<open>\<exists>f. ModelNew_generateFromJson P m (JObject kvs) hasSingleton = Inr f
        \<and> sublist ''    id = stringFromJson(json, "id");\<newline>'' f\<close>
proof -
  let ?h = "''  '' @ (if hasSingleton then ''fromJson'' else getCurrentClassName m @ ''.fromJson'')
            @ ''([Map<String, dynamic>? json]) {\<newline>''"
  let ?r = "concat (map fromJsonLine kvs) @ ''  }''"
  have \<open>ModelNew_generateFromJson P m (JObject kvs) hasSingleton =
          Inr (?h @ ''    id = stringFromJson(json, "id");\<newline>'' @ ?r)\<close>
    unfolding generateFromJson_object by (simp only: append_assoc)
  then show ?thesis
    using sublist_appendI by blast
qed



subsection \<open>The id convention\<close>




subsection \<open>Keys with an array or null value\<close>




lemma generateJsonComment_key_absent:
  "getCurrentSettings present checked ''generateJsonComment'' = None"
  by (simp add: getCurrentSettings_def checkboxKeys_def)

subsection \<open>The trailing comment\<close>

text \<open>
  C6 (what the code does). \<^verbatim>\<open>getCurrentSettings\<close> hands the comment switch over under the
  name \<^verbatim>\<open>generateComment\<close>, which the Standard renderer reads; the Nested/Persistence
  renderer reads \<^verbatim>\<open>settings.generateJsonComment\<close>, a name the settings never hold. With
  the switch on, its text for a JSON object still ends with the closing brace of the
  class: no comment is appended.
\<close>

theorem nested_renderer_ignores_comment_switch:
  assumes "present ''generateComment''" and "checked ''generateComment''"
  shows "truthy (getCurrentSettings present checked) ''generateComment''
         \<and> \<not> truthy (getCurrentSettings present checked) ''generateJsonComment''
         \<and> (\<exists>body. generate P m className (JObject kvs) (getCurrentSettings present checked) =
               Inr (body @ ''      };\<newline>}\<newline>''))"
proof (intro conjI)
  let ?s = "getCurrentSettings present checked"
  show "truthy ?s ''generateComment''"
    using assms by (simp add: truthy_def getCurrentSettings_def checkboxKeys_def)
  show off: "\<not> truthy ?s ''generateJsonComment''"
    by (simp add: truthy_def generateJsonComment_key_absent)
  let ?t0 = \<open>''  @override\<newline>  Map<String, dynamic> toJson() => {\<newline>''
          @ ''        "id": id,\<newline>''
          @ join '',\<newline>''
              (map toJsonAssignment (filter (\<lambda>(key, v). isValidDartVariableName key) kvs))
          @ '',\<newline>''\<close>
  have t: "ModelNew_generateToJson P (JObject kvs) = Inr (?t0 @ ''      };'')"
    unfolding generateToJson_object by (simp only: append_assoc)
  from fromJson_assigns_id obtain f where
    f: "ModelNew_generateFromJson P m (JObject kvs) (truthy ?s ''singletonPattern'') = Inr f"
    by blast
  from generate_object_parts [OF f t] off obtain pre mid where
    "generate P m className (JObject kvs) ?s =
       Inr (pre @ f @ mid @ (?t0 @ ''      };'') @ ''\<newline>'' @ ''}\<newline>'' @ '''')"
    by (simp only: if_False) blast
  then have "generate P m className (JObject kvs) ?s =
       Inr ((pre @ f @ mid @ ?t0) @ ''      };\<newline>}\<newline>'')"
    by simp
  then show "\<exists>body. generate P m className (JObject kvs) ?s =
               Inr (body @ ''      };\<newline>}\<newline>'')"
    by blast
qed

theorem nested_renderer_ignores_comment_switch_witness:
  "allPresent ''generateComment''
   \<and> (defaultChecked(''modelNew'' := True, ''generateComment'' := True)) ''generateComment''
   \<and> (\<exists>body. generate exampleHost (setCurrentClassName ModelNewGenerator_new ''User'') ''User''
                 (JObject userEntries)
                 (getCurrentSettings allPresent
                    (defaultChecked(''modelNew'' := True, ''generateComment'' := True))) =
               Inr (body @ ''      };\<newline>}\<newline>''))"
proof -
  have a: "allPresent ''generateComment''" by (simp add: allPresent_def)
  have b: "(defaultChecked(''modelNew'' := True, ''generateComment'' := True)) ''generateComment''"
    by simp
  from nested_renderer_ignores_comment_switch
    [of allPresent "defaultChecked(''modelNew'' := True, ''generateComment'' := True)"
      exampleHost "setCurrentClassName ModelNewGenerator_new ''User''" "''User''" userEntries]
  show ?thesis using a b by blast
qed

text \<open>The whole text for the user sample, the comment switch on.\<close>

lemma nested_render_with_comment_switch_on:
  \<open>generate exampleHost (setCurrentClassName ModelNewGenerator_new ''User'') ''User''
      (JObject userEntries)
      (getCurrentSettings allPresent
         (defaultChecked(''modelNew'' := True, ''generateComment'' := True))) =
     Inr ''import 'dart:convert';\<newline>\<newline>import '../main.dart';\<newline>import 'base.dart';\<newline>class User extends Model {\<newline>late String name;\<newline>  late bool active;\<newline>  late int id;\<newline>\<newline>  User.fromJson([Map<String, dynamic>? json]) {\<newline>    id = stringFromJson(json, "id");\<newline>    id = intFromJson(json, "id");\<newline>    name = stringFromJson(json, "name");\<newline>    active = boolFromJson(json, "active");\<newline>  }\<newline>\<newline>  @override\<newline>  Map<String, dynamic> toJson() => {\<newline>        "id": id,\<newline>        "id": id,\<newline>        "name": name,\<newline>        "active": active,\<newline>      };\<newline>}\<newline>''\<close>
  by code_simp

text \<open>The Standard renderer does end its text with the comment when its switch is on.\<close>

lemma standard_renderer_appends_comment:
  assumes p: "JSON_parse P s = Inr (JObject kvs)"
    and on: "opt_generateComment (this_options g)"
  shows "\<exists>body. generateDartClass P g className s =
           Inr (body @ ''}\<newline>\<newline>\<newline>''
                @ join ''\<newline>''
                    (map (\<lambda>line. ''// '' @ line) (splitLines (JSON_stringify P (JObject kvs)))))"
proof -
  define J where "J = join ''\<newline>''
              (map (\<lambda>line. ''// '' @ line) (splitLines (JSON_stringify P (JObject kvs))))"
  define front where "front = filter (\<lambda>s. s \<noteq> '''')
      [generateImports g, '''', generateClassDeclaration g className,
       generateFields g (extractLoop g kvs), '''',
       generateConstructor g className (extractLoop g kvs), '''',
       generateFromJson g className (extractLoop g kvs),
       generateToJson g (extractLoop g kvs),
       generateCopyWith g className (extractLoop g kvs),
       generateToString g className (extractLoop g kvs)]"
  have c: "generateJsonComment P g s = Inr (''\<newline>\<newline>'' @ J)"
    unfolding generateJsonComment_def J_def
    by (simp only: on p not_True_eq_False if_False sum.case)
  have "filter (\<lambda>s. s \<noteq> '''') (classSections g className (extractLoop g kvs) (''\<newline>\<newline>'' @ J))
          = (front @ [''}'']) @ [''\<newline>\<newline>'' @ J]"
    by (simp add: classSections_def front_def)
  moreover have "join ''\<newline>'' ((front @ [''}'']) @ [''\<newline>\<newline>'' @ J])
          = join ''\<newline>'' (front @ [''}'']) @ ''\<newline>'' @ ''\<newline>\<newline>'' @ J"
    by (rule join_snoc) simp
  moreover have "\<exists>b. join ''\<newline>'' (front @ [''}'']) = b @ ''}''"
  proof (cases "front = []")
    case True
    then show ?thesis by simp
  next
    case False
    then have "join ''\<newline>'' (front @ [''}'']) = (join ''\<newline>'' front @ ''\<newline>'') @ ''}''"
      by (simp add: join_snoc)
    then show ?thesis by blast
  qed
  ultimately obtain b where
    "join ''\<newline>'' (filter (\<lambda>s. s \<noteq> '''')
        (classSections g className (extractLoop g kvs) (''\<newline>\<newline>'' @ J)))
       = (b @ ''}'') @ ''\<newline>'' @ ''\<newline>\<newline>'' @ J"
    by auto
  moreover have "generateDartClass P g className s =
     Inr (join ''\<newline>''
            (filter (\<lambda>s. s \<noteq> '''')
               (classSections g className (extractLoop g kvs) (''\<newline>\<newline>'' @ J))))"
    using p c
    by (simp add: generateDartClass_def generateDartClass_try_def buildDartClass_def
        extractProperties_def)
  ultimately have "generateDartClass P g className s = Inr (b @ ''}\<newline>\<newline>\<newline>'' @ J)"
    by simp
  then show ?thesis unfolding J_def by blast
qed

section \<open>The render call\<close>

subsection \<open>What a call leaves on the generators\<close>

lemma spread_getCurrentSettings:
  "k \<in> set checkboxKeys \<Longrightarrow>
   spread old (getCurrentSettings present checked) k = (if present k then checked k else old)"
  by (simp add: spread_def getCurrentSettings_def)

lemma option_keys_are_checkboxes:
  "''generateToJson'' \<in> set checkboxKeys" "''generateCopyWith'' \<in> set checkboxKeys"
  "''generateToString'' \<in> set checkboxKeys" "''generateKeys'' \<in> set checkboxKeys"
  "''useNum'' \<in> set checkboxKeys" "''useSerializable'' \<in> set checkboxKeys"
  "''useEquatable'' \<in> set checkboxKeys" "''useDefaultValue'' \<in> set checkboxKeys"
  "''generateComment'' \<in> set checkboxKeys"
  by (simp_all add: checkboxKeys_def)

lemma setOptions_getCurrentSettings:
  "setOptions g (getCurrentSettings present checked) = g\<lparr>this_options := \<lparr>
     opt_generateToJson = (if present ''generateToJson'' then checked ''generateToJson''
                           else opt_generateToJson (this_options g)),
     opt_generateCopyWith = (if present ''generateCopyWith'' then checked ''generateCopyWith''
                           else opt_generateCopyWith (this_options g)),
     opt_generateToString = (if present ''generateToString'' then checked ''generateToString''
                           else opt_generateToString (this_options g)),
     opt_generateKeys = (if present ''generateKeys'' then checked ''generateKeys''
                           else opt_generateKeys (this_options g)),
     opt_useNum = (if present ''useNum'' then checked ''useNum''
                           else opt_useNum (this_options g)),
     opt_useSerializable = (if present ''useSerializable'' then checked ''useSerializable''
                           else opt_useSerializable (this_options g)),
     opt_useEquatable = (if present ''useEquatable'' then checked ''useEquatable''
                           else opt_useEquatable (this_options g)),
     opt_useDefaultValue = (if present ''useDefaultValue'' then checked ''useDefaultValue''
                           else opt_useDefaultValue (this_options g)),
     opt_generateComment = (if present ''generateComment'' then checked ''generateComment''
                           else opt_generateComment (this_options g))\<rparr>\<rparr>"
  unfolding setOptions_def
  by (simp only: spread_getCurrentSettings option_keys_are_checkboxes)

lemma settled_new: "settled present JsonToDartConverter_new"
  by (simp add: settled_def JsonToDartConverter_new_def DartGenerator_new_def)

lemma settled_setOptions:
  "settled present c \<Longrightarrow>
   settled present (c\<lparr>dartGenerator := setOptions (dartGenerator c) (getCurrentSettings present checked)\<rparr>)"
  by (simp add: settled_def setOptions_getCurrentSettings)

lemma settled_setCurrentClassName:
  "settled present c \<Longrightarrow>
   settled present (c\<lparr>modelNewGenerator := setCurrentClassName (modelNewGenerator c) className\<rparr>)"
  by (simp add: settled_def setCurrentClassName_def)

lemma convert_state:
  "snd (convert P present c className jsonString checked) = c
   \<or> snd (convert P present c className jsonString checked) =
       c\<lparr>modelNewGenerator := setCurrentClassName (modelNewGenerator c) className\<rparr>
   \<or> snd (convert P present c className jsonString checked) =
       c\<lparr>dartGenerator := setOptions (dartGenerator c) (getCurrentSettings present checked)\<rparr>"
  by (simp add: convert_def Let_def split: sum.splits)

lemma settled_convert:
  "settled present c \<Longrightarrow> settled present (snd (convert P present c className jsonString checked))"
  using convert_state [of P present c className jsonString checked]
    settled_setOptions [of present c checked] settled_setCurrentClassName [of present c className]
  by auto

lemma reachable_settled: "reachable P present c \<Longrightarrow> settled present c"
  by (induction rule: reachable.induct) (simp_all add: settled_new settled_convert)

lemma settled_setOptions_eq:
  assumes "settled present c"
  shows "setOptions (dartGenerator c) (getCurrentSettings present checked) =
         setOptions DartGenerator_new (getCurrentSettings present checked)"
proof -
  from assms have "this_className (dartGenerator c) = this_className DartGenerator_new"
    by (simp add: settled_def DartGenerator_new_def)
  moreover have "DartGenerator.more (dartGenerator c) = DartGenerator.more DartGenerator_new"
    by simp
  moreover from assms have "this_options (setOptions (dartGenerator c) (getCurrentSettings present checked))
     = this_options (setOptions DartGenerator_new (getCurrentSettings present checked))"
    by (simp add: settled_def setOptions_getCurrentSettings)
  ultimately show ?thesis
    by (simp add: setOptions_getCurrentSettings DartGenerator.equality)
qed

lemma settled_setCurrentClassName_eq:
  assumes "settled present c"
  shows "setCurrentClassName (modelNewGenerator c) className =
         setCurrentClassName ModelNewGenerator_new className"
  using assms by (simp add: settled_def setCurrentClassName_def ModelNewGenerator.equality)

lemma settled_convert_fresh:
  assumes "settled present c"
  shows "fst (convert P present c className jsonString checked) =
         fst (convert P present JsonToDartConverter_new className jsonString checked)"
  unfolding convert_def Let_def
  by (simp add: settled_setOptions_eq [OF assms] settled_setCurrentClassName_eq [OF assms]
      JsonToDartConverter_new_def split: sum.splits)

lemma generate_reads_instance:
  assumes "baseImports m = baseImports m'"
    and "getCurrentClassName m = getCurrentClassName m'"
  shows "generate P m className jsonData s = generate P m' className jsonData s"
proof -
  have f: "ModelNew_generateFromJson P m j h = ModelNew_generateFromJson P m' j h" for j h
    unfolding ModelNew_generateFromJson_def assms(2) by (rule refl)
  have t: "generate_template P m className j s = generate_template P m' className j s" for j
    unfolding generate_template_def f assms(1) by (rule refl)
  show ?thesis
    unfolding generate_def t by (rule refl)
qed

lemma getCurrentClassName_set:
  "getCurrentClassName (setCurrentClassName m className) =
     (if className = '''' then ''Model'' else className)"
  by (simp add: getCurrentClassName_def setCurrentClassName_def)

lemma baseImports_set: "baseImports (setCurrentClassName m className) = baseImports m"
  by (simp add: setCurrentClassName_def)

lemma setOptions_all_given:
  assumes "\<forall>k \<in> set optionKeys. s k \<noteq> None"
    and "this_className g = this_className g'"
  shows "setOptions g s = setOptions g' s"
proof -
  have sp: "spread old s k = the (s k)" if "k \<in> set optionKeys" for old k
    using that assms(1) by (auto simp: spread_def)
  have o: "this_options (setOptions g s) = this_options (setOptions g' s)"
    unfolding setOptions_def by (simp add: sp optionKeys_def)
  have c: "this_className (setOptions g s) = this_className (setOptions g' s)"
    by (simp add: setOptions_className assms(2))
  from o c show ?thesis
    by (simp add: DartGenerator.equality)
qed

subsection \<open>Determinism and reentrancy\<close>

text \<open>
  C9 (as amended). The generators do keep state between calls, and read it: the
  ModelNewGenerator names the initializer after \<^verbatim>\<open>this.currentClassName\<close>, not after the
  class name it is called with, and \<^verbatim>\<open>setOptions\<close> of the DartGenerator keeps every option
  that the object it is given does not hold. What holds is this. A render call as the
  program makes it (\<^verbatim>\<open>convert\<close>, which hands the class name and the options of the call to
  the generator before it renders) shows, in every state the converter can be in, what
  the fresh converter shows for the same triple (class name, JSON text, options): the text
  depends on the triple only, the same triple twice gives the same text, and an earlier
  call with another class name or other options changes nothing. On the generators
  themselves: the text of the ModelNewGenerator depends on the instance through its
  imports and its current class name only, so not on what the instance held before once
  \<^verbatim>\<open>setCurrentClassName\<close> has been given the class name of the call; and the text of the
  DartGenerator does not depend on the options the instance held before once \<^verbatim>\<open>setOptions\<close>
  has been given an object that holds all nine options.
\<close>

theorem render_depends_on_triple_once_state_is_set:
  "(reachable P present c \<longrightarrow>
      fst (convert P present c className jsonString checked) =
        fst (convert P present JsonToDartConverter_new className jsonString checked)
      \<and> fst (convert P present (snd (convert P present c className jsonString checked))
              className jsonString checked) =
          fst (convert P present c className jsonString checked)
      \<and> fst (convert P present (snd (convert P present c className' jsonString' checked'))
              className jsonString checked) =
          fst (convert P present c className jsonString checked))
   \<and> (baseImports m = baseImports m' \<and> getCurrentClassName m = getCurrentClassName m' \<longrightarrow>
        generate P m className jsonData s = generate P m' className jsonData s)
   \<and> (baseImports m = baseImports m' \<longrightarrow>
        generate P (setCurrentClassName m className) className jsonData s =
          generate P (setCurrentClassName m' className) className jsonData s)
   \<and> ((\<forall>k \<in> set optionKeys. s k \<noteq> None) \<and> this_className g = this_className g' \<longrightarrow>
        generateDartClass P (setOptions g s) className jsonString =
          generateDartClass P (setOptions g' s) className jsonString)"
proof (intro conjI impI)
  assume r: "reachable P present c"
  have fresh: "fst (convert P present d className jsonString checked) =
           fst (convert P present JsonToDartConverter_new className jsonString checked)"
    if "reachable P present d" for d
    using that by (intro settled_convert_fresh reachable_settled)
  have again: "reachable P present (snd (convert P present c n j k))" for n j k
    using r by (rule reachable_convert)
  show "fst (convert P present c className jsonString checked) =
        fst (convert P present JsonToDartConverter_new className jsonString checked)"
    by (rule fresh [OF r])
  show "fst (convert P present (snd (convert P present c className jsonString checked))
              className jsonString checked) =
          fst (convert P present c className jsonString checked)"
    using fresh [OF r] fresh [OF again] by simp
  show "fst (convert P present (snd (convert P present c className' jsonString' checked'))
              className jsonString checked) =
          fst (convert P present c className jsonString checked)"
    using fresh [OF r] fresh [OF again] by simp
next
  assume "baseImports m = baseImports m' \<and> getCurrentClassName m = getCurrentClassName m'"
  then show "generate P m className jsonData s = generate P m' className jsonData s"
    by (intro generate_reads_instance) simp_all
next
  assume "baseImports m = baseImports m'"
  then show "generate P (setCurrentClassName m className) className jsonData s =
          generate P (setCurrentClassName m' className) className jsonData s"
    by (intro generate_reads_instance) (simp_all add: getCurrentClassName_set baseImports_set)
next
  assume "(\<forall>k \<in> set optionKeys. s k \<noteq> None) \<and> this_className g = this_className g'"
  then have "setOptions g s = setOptions g' s"
    by (intro setOptions_all_given) simp_all
  then show "generateDartClass P (setOptions g s) className jsonString =
          generateDartClass P (setOptions g' s) className jsonString"
    by simp
qed

theorem render_depends_on_triple_once_state_is_set_witness:
  "reachable exampleHost allPresent
     (snd (convert exampleHost allPresent JsonToDartConverter_new ''Other'' userText
             (defaultChecked(''useNum'' := True))))
   \<and> fst (convert exampleHost allPresent
           (snd (convert exampleHost allPresent JsonToDartConverter_new ''Other'' userText
                   (defaultChecked(''useNum'' := True))))
           ''User'' userText defaultChecked) =
       fst (convert exampleHost allPresent JsonToDartConverter_new ''User'' userText defaultChecked)
   \<and> baseImports (setCurrentClassName ModelNewGenerator_new ''Other'') =
       baseImports ModelNewGenerator_new
   \<and> getCurrentClassName (setCurrentClassName ModelNewGenerator_new ''Model'') =
       getCurrentClassName ModelNewGenerator_new
   \<and> generate exampleHost (setCurrentClassName ModelNewGenerator_new ''Model'') ''User''
         (JObject userEntries) Map.empty =
       generate exampleHost ModelNewGenerator_new ''User'' (JObject userEntries) Map.empty
   \<and> generate exampleHost
         (setCurrentClassName (setCurrentClassName ModelNewGenerator_new ''Other'') ''User'')
         ''User'' (JObject userEntries) Map.empty =
       generate exampleHost (setCurrentClassName ModelNewGenerator_new ''User'')
         ''User'' (JObject userEntries) Map.empty
   \<and> list_all (\<lambda>k. getCurrentSettings allPresent defaultChecked k \<noteq> None) optionKeys
   \<and> this_className (setOptions DartGenerator_new [''useNum'' \<mapsto> True]) =
       this_className DartGenerator_new
   \<and> generateDartClass exampleHost
         (setOptions (setOptions DartGenerator_new [''useNum'' \<mapsto> True])
            (getCurrentSettings allPresent defaultChecked)) ''User'' userText =
       generateDartClass exampleHost
         (setOptions DartGenerator_new (getCurrentSettings allPresent defaultChecked))
         ''User'' userText"
proof -
  let ?c = "snd (convert exampleHost allPresent JsonToDartConverter_new ''Other'' userText
             (defaultChecked(''useNum'' := True)))"
  let ?m = "setCurrentClassName ModelNewGenerator_new ''Other''"
  let ?n = "setCurrentClassName ModelNewGenerator_new ''Model''"
  let ?g = "setOptions DartGenerator_new [''useNum'' \<mapsto> True]"
  let ?s = "getCurrentSettings allPresent defaultChecked"
  have r: "reachable exampleHost allPresent ?c"
    by (intro reachable_convert reachable_new)
  have b: "baseImports ?m = baseImports ModelNewGenerator_new"
    by code_simp
  have b': "baseImports ?n = baseImports ModelNewGenerator_new"
    by code_simp
  have n: "getCurrentClassName ?n = getCurrentClassName ModelNewGenerator_new"
    by code_simp
  have k: "list_all (\<lambda>k. ?s k \<noteq> None) optionKeys"
    by code_simp
  then have k': "\<forall>k \<in> set optionKeys. ?s k \<noteq> None"
    by (simp only: list_all_iff)
  have c: "this_className ?g = this_className DartGenerator_new"
    by code_simp
  from render_depends_on_triple_once_state_is_set
    [of exampleHost allPresent ?c "''User''" userText defaultChecked "''Other''" userText
      "defaultChecked(''useNum'' := True)" ?n ModelNewGenerator_new "JObject userEntries"
      Map.empty ?g DartGenerator_new] r b' n
  have 1: "fst (convert exampleHost allPresent ?c ''User'' userText defaultChecked) =
       fst (convert exampleHost allPresent JsonToDartConverter_new ''User'' userText defaultChecked)"
    and 2: "generate exampleHost ?n ''User'' (JObject userEntries) Map.empty =
       generate exampleHost ModelNewGenerator_new ''User'' (JObject userEntries) Map.empty"
    by blast+
  from render_depends_on_triple_once_state_is_set
    [of exampleHost allPresent ?c "''User''" userText defaultChecked "''Other''" userText
      "defaultChecked(''useNum'' := True)" ?m ModelNewGenerator_new "JObject userEntries"
      ?s ?g DartGenerator_new] b k' c
  have 3: "generateDartClass exampleHost (setOptions ?g ?s) ''User'' userText =
       generateDartClass exampleHost (setOptions DartGenerator_new ?s) ''User'' userText"
    by blast
  from render_depends_on_triple_once_state_is_set
    [of exampleHost allPresent ?c "''User''" userText defaultChecked "''Other''" userText
      "defaultChecked(''useNum'' := True)" ?m ModelNewGenerator_new "JObject userEntries"
      Map.empty ?g DartGenerator_new] b
  have 4: "generate exampleHost (setCurrentClassName ?m ''User'') ''User'' (JObject userEntries) Map.empty =
       generate exampleHost (setCurrentClassName ModelNewGenerator_new ''User'') ''User''
         (JObject userEntries) Map.empty"
    by blast
  from r 1 b n 2 4 k c 3 show ?thesis by blast
qed

text \<open>
  C9 as stated ("no state carried on a generator instance can change the text") fails on
  the generators. A ModelNewGenerator that an earlier call left with the class name
  \<^verbatim>\<open>Other\<close> renders the class \<^verbatim>\<open>User\<close> with the initializer \<^verbatim>\<open>Other.fromJson\<close>; and a
  DartGenerator that an earlier call left with useNum on, given an options object that
  does not hold useNum, renders the field \<^verbatim>\<open>id\<close> of the user sample as \<^verbatim>\<open>num\<close>, not \<^verbatim>\<open>int\<close>.
\<close>

theorem render_reads_carried_generator_state_counterexample:
  \<open>generate exampleHost (setCurrentClassName ModelNewGenerator_new ''Other'') ''User''
      (JObject []) Map.empty =
     Inr ''import 'dart:convert';\<newline>\<newline>import '../main.dart';\<newline>import 'base.dart';\<newline>class User extends Model {\<newline>\<newline>\<newline>  Other.fromJson([Map<String, dynamic>? json]) {\<newline>    id = stringFromJson(json, "id");\<newline>  }\<newline>\<newline>  @override\<newline>  Map<String, dynamic> toJson() => {\<newline>        "id": id,\<newline>,\<newline>      };\<newline>}\<newline>''
   \<and> generate exampleHost (setCurrentClassName ModelNewGenerator_new ''User'') ''User''
      (JObject []) Map.empty =
     Inr ''import 'dart:convert';\<newline>\<newline>import '../main.dart';\<newline>import 'base.dart';\<newline>class User extends Model {\<newline>\<newline>\<newline>  User.fromJson([Map<String, dynamic>? json]) {\<newline>    id = stringFromJson(json, "id");\<newline>  }\<newline>\<newline>  @override\<newline>  Map<String, dynamic> toJson() => {\<newline>        "id": id,\<newline>,\<newline>      };\<newline>}\<newline>''
   \<and> generateFields (setOptions (setOptions DartGenerator_new [''useNum'' \<mapsto> True]) Map.empty)
       (extractLoop (setOptions (setOptions DartGenerator_new [''useNum'' \<mapsto> True]) Map.empty)
          userEntries) =
     ''  @JsonKey(name: 'id')\<newline>  final num? id;\<newline>\<newline>  @JsonKey(name: 'name')\<newline>  final String? name;\<newline>\<newline>  @JsonKey(name: 'active')\<newline>  final bool? active;''
   \<and> generateFields (setOptions DartGenerator_new Map.empty)
       (extractLoop (setOptions DartGenerator_new Map.empty) userEntries) =
     ''  @JsonKey(name: 'id')\<newline>  final int? id;\<newline>\<newline>  @JsonKey(name: 'name')\<newline>  final String? name;\<newline>\<newline>  @JsonKey(name: 'active')\<newline>  final bool? active;''
   \<and> generateDartClass exampleHost
         (setOptions (setOptions DartGenerator_new [''useNum'' \<mapsto> True]) Map.empty)
         ''User'' userText
       \<noteq> generateDartClass exampleHost (setOptions DartGenerator_new Map.empty) ''User'' userText\<close>
  by code_simp

end
